theory Spec2Isabelle
  imports Main "HOL-Library.Word"
begin

unbundle bit_operations_syntax

section \<open>The download language of pre-commit: \<^verbatim>\<open>pre_commit/languages/download.py\<close>\<close>

text \<open>
  The module provisions one executable per host platform: it picks the manifest entry of
  the host, streams the download through an integrity check into the environment
  directory, makes the file read+execute for its owner, and records the checksum in a
  sidecar file that a later health check re-verifies.

  Python values are modelled as follows. A \<^verbatim>\<open>str\<close> is a \<^typ>\<open>string\<close> whose characters are
  code points below 256; \<^verbatim>\<open>bytes\<close> is a list of 8-bit words. An exception is a value of
  type \<open>error\<close>, and a function that may raise returns \<open>error + 'a\<close>. What the
  module takes from outside itself (the host's names, \<^verbatim>\<open>hashlib\<close>, \<^verbatim>\<open>urllib\<close>,
  \<^verbatim>\<open>pathlib\<close>, the environment-directory allocator) is a field of the record
  \<open>runtime\<close>, so every theorem holds for each of their behaviours.
\<close>

type_synonym byte = "8 word"
type_synonym bytes = "byte list"

subsection \<open>Exceptions\<close>

text \<open>
  The exception classes that the module raises or lets through, with Python's class
  hierarchy. \<^verbatim>\<open>ChecksumMismatchError\<close> is declared in the module as a subclass of
  \<^verbatim>\<open>ValueError\<close>; it stores \<^verbatim>\<open>expected\<close>, \<^verbatim>\<open>actual\<close> and \<^verbatim>\<open>message\<close>.
\<close>

datatype exc_class =
    C_Exception
  | C_ValueError
  | C_ChecksumMismatchError
  | C_binascii_Error
  | C_UnicodeDecodeError
  | C_LookupError
  | C_KeyError
  | C_TypeError
  | C_OSError
  | C_FileNotFoundError
  | C_FileExistsError
  | C_IsADirectoryError
  | C_URLError

datatype error =
    ValueError string
  | ChecksumMismatchError (expected: string) (actual: string) (message: string)
  | binascii_Error string
  | UnicodeDecodeError string
  | LookupError string
  | KeyError string
  | TypeError string
  | FileNotFoundError string
  | FileExistsError string
  | IsADirectoryError string
  | URLError string

fun class_of :: "error \<Rightarrow> exc_class" where
  "class_of (ValueError _) = C_ValueError"
| "class_of (ChecksumMismatchError _ _ _) = C_ChecksumMismatchError"
| "class_of (binascii_Error _) = C_binascii_Error"
| "class_of (UnicodeDecodeError _) = C_UnicodeDecodeError"
| "class_of (LookupError _) = C_LookupError"
| "class_of (KeyError _) = C_KeyError"
| "class_of (TypeError _) = C_TypeError"
| "class_of (FileNotFoundError _) = C_FileNotFoundError"
| "class_of (FileExistsError _) = C_FileExistsError"
| "class_of (IsADirectoryError _) = C_IsADirectoryError"
| "class_of (URLError _) = C_URLError"

text \<open>The classes a class inherits from, itself first (its method resolution order).\<close>

fun mro :: "exc_class \<Rightarrow> exc_class list" where
  "mro C_Exception = [C_Exception]"
| "mro C_ValueError = [C_ValueError, C_Exception]"
| "mro C_ChecksumMismatchError = [C_ChecksumMismatchError, C_ValueError, C_Exception]"
| "mro C_binascii_Error = [C_binascii_Error, C_ValueError, C_Exception]"
| "mro C_UnicodeDecodeError = [C_UnicodeDecodeError, C_ValueError, C_Exception]"
| "mro C_LookupError = [C_LookupError, C_Exception]"
| "mro C_KeyError = [C_KeyError, C_LookupError, C_Exception]"
| "mro C_TypeError = [C_TypeError, C_Exception]"
| "mro C_OSError = [C_OSError, C_Exception]"
| "mro C_FileNotFoundError = [C_FileNotFoundError, C_OSError, C_Exception]"
| "mro C_FileExistsError = [C_FileExistsError, C_OSError, C_Exception]"
| "mro C_IsADirectoryError = [C_IsADirectoryError, C_OSError, C_Exception]"
| "mro C_URLError = [C_URLError, C_OSError, C_Exception]"

definition issubclass :: "exc_class \<Rightarrow> exc_class \<Rightarrow> bool" where
  "issubclass c d = (d \<in> set (mro c))"

text \<open>\<^verbatim>\<open>except cls as err\<close> catches \<open>e\<close> exactly when \<open>isinstance e cls\<close>.\<close>

definition isinstance :: "error \<Rightarrow> exc_class \<Rightarrow> bool" where
  "isinstance e c = issubclass (class_of e) c"

subsection \<open>Strings\<close>

text \<open>\<^verbatim>\<open>sep.join(xs)\<close>.\<close>

fun join :: "string \<Rightarrow> string list \<Rightarrow> string" where
  "join sep [] = []"
| "join sep [x] = x"
| "join sep (x # y # ys) = x @ sep @ join sep (y # ys)"

text \<open>
  \<^verbatim>\<open>a, b = s.split(sep, 1)\<close> for a one-character separator: the text before the first
  separator and the text after it; without a separator the list has one element and
  the unpacking raises.
\<close>

definition split_once :: "char \<Rightarrow> string \<Rightarrow> error + (string \<times> string)" where
  "split_once sep s =
     (if sep \<in> set s
      then Inr (takeWhile (\<lambda>c. c \<noteq> sep) s, tl (dropWhile (\<lambda>c. c \<noteq> sep) s))
      else Inl (ValueError ''not enough values to unpack (expected 2, got 1)''))"

text \<open>\<^verbatim>\<open>str(n)\<close> for a natural number.\<close>

definition digit_char :: "nat \<Rightarrow> char" where
  "digit_char d = char_of (48 + d)"

function str_nat :: "nat \<Rightarrow> string" where
  "str_nat n = (if n < 10 then [digit_char n] else str_nat (n div 10) @ [digit_char (n mod 10)])"
  by pat_completeness auto
termination
  by (relation "measure id") auto

declare str_nat.simps [simp del]



text \<open>
  \<^verbatim>\<open>str.splitlines()\<close>: the lines without their terminators; a line ends at a line
  feed, a carriage return (with the line feed that follows it, if any), a vertical tab,
  a form feed, a file, group or record separator, or a next-line character. The flag
  says that the previous character was a carriage return; the accumulator holds the
  current line reversed.
\<close>

definition is_linebreak :: "char \<Rightarrow> bool" where
  "is_linebreak c = (of_char c \<in> set [10, 11, 12, 13, 28, 29, 30, 133 :: nat])"

fun splitlines_from :: "bool \<Rightarrow> string \<Rightarrow> string \<Rightarrow> string list" where
  "splitlines_from cr acc [] = (if acc = [] then [] else [rev acc])"
| "splitlines_from cr acc (c # cs) =
     (if cr \<and> c = CHR 0x0A then splitlines_from False acc cs
      else if is_linebreak c then rev acc # splitlines_from (c = CHR 0x0D) [] cs
      else splitlines_from False (c # acc) cs)"

definition splitlines :: "string \<Rightarrow> string list" where
  "splitlines s = splitlines_from False [] s"

subsection \<open>Base64 and the text codec\<close>

text \<open>
  \<^verbatim>\<open>base64.standard_b64encode\<close>: three bytes become four characters of the standard
  alphabet, and a last group of one or two bytes is padded with \<^verbatim>\<open>=\<close>.
\<close>

definition b64_alphabet :: string where
  "b64_alphabet = ''ABCDEFGHIJKLMNOPQRSTUVWXYZabcdefghijklmnopqrstuvwxyz0123456789+/''"

definition b64_char :: "nat \<Rightarrow> byte" where
  "b64_char n = of_nat (of_char (b64_alphabet ! (n mod 64)) :: nat)"

definition b64_pad :: byte where
  "b64_pad = 0x3D"

fun b64encode :: "bytes \<Rightarrow> bytes" where
  "b64encode [] = []"
| "b64encode [a] =
     [b64_char (unat a div 4), b64_char (unat a mod 4 * 16), b64_pad, b64_pad]"
| "b64encode [a, b] =
     [b64_char (unat a div 4), b64_char (unat a mod 4 * 16 + unat b div 16),
      b64_char (unat b mod 16 * 4), b64_pad]"
| "b64encode (a # b # c # rest) =
     [b64_char (unat a div 4), b64_char (unat a mod 4 * 16 + unat b div 16),
      b64_char (unat b mod 16 * 4 + unat c div 64), b64_char (unat c mod 64)]
     @ b64encode rest"

text \<open>The characters of ASCII bytes: the text that an encoding stands for.\<close>

definition ascii_text :: "bytes \<Rightarrow> string" where
  "ascii_text bs = map (\<lambda>b. char_of (unat b)) bs"

text \<open>The value of a character of the alphabet; any other byte has none.\<close>

definition table_a2b_base64 :: "byte \<Rightarrow> nat option" where
  "table_a2b_base64 ch =
     (let n = unat ch in
      if 65 \<le> n \<and> n \<le> 90 then Some (n - 65)
      else if 97 \<le> n \<and> n \<le> 122 then Some (n - 71)
      else if 48 \<le> n \<and> n \<le> 57 then Some (n + 4)
      else if n = 43 then Some 62
      else if n = 47 then Some 63
      else None)"

text \<open>
  \<^verbatim>\<open>binascii.a2b_base64\<close> in its default, lenient mode, which is what
  \<^verbatim>\<open>standard_b64decode\<close> calls: bytes outside the alphabet are skipped, a pad that
  completes a group of four ends the decoding (what follows is ignored), any other pad is
  skipped, and an incomplete last group is an error. \<open>quad_pos\<close> is the position in the
  group of four, \<open>leftchar\<close> the bits not yet written, \<open>pads\<close> the pads seen since
  the last character of the alphabet.
\<close>

fun a2b_base64_loop :: "bytes \<Rightarrow> nat \<Rightarrow> nat \<Rightarrow> nat \<Rightarrow> bytes \<Rightarrow> error + bytes" where
  "a2b_base64_loop [] quad_pos leftchar pads out =
     (if quad_pos \<noteq> 0 then
        (if quad_pos = 1 then
           Inl (binascii_Error (''Invalid base64-encoded string: number of data characters (''
                  @ str_nat (length out div 3 * 4 + 1)
                  @ '') cannot be 1 more than a multiple of 4''))
         else Inl (binascii_Error ''Incorrect padding''))
      else Inr out)"
| "a2b_base64_loop (this_ch # rest) quad_pos leftchar pads out =
     (if this_ch = b64_pad then
        (if quad_pos \<ge> 2 \<and> quad_pos + (pads + 1) \<ge> 4 then Inr out
         else a2b_base64_loop rest quad_pos leftchar
                (if quad_pos \<ge> 2 then pads + 1 else pads) out)
      else
        (case table_a2b_base64 this_ch of
           None \<Rightarrow> a2b_base64_loop rest quad_pos leftchar pads out
         | Some v \<Rightarrow>
             (if quad_pos = 0 then a2b_base64_loop rest 1 v 0 out
              else if quad_pos = 1 then
                a2b_base64_loop rest 2 (v mod 16) 0 (out @ [of_nat (leftchar * 4 + v div 16)])
              else if quad_pos = 2 then
                a2b_base64_loop rest 3 (v mod 4) 0 (out @ [of_nat (leftchar * 16 + v div 4)])
              else
                a2b_base64_loop rest 0 0 0 (out @ [of_nat (leftchar * 64 + v)]))))"

text \<open>
  \<^verbatim>\<open>base64.standard_b64decode\<close> of a \<^verbatim>\<open>str\<close>: the string is first encoded as ASCII,
  which fails on any other character.
\<close>

definition b64decode :: "string \<Rightarrow> error + bytes" where
  "b64decode s =
     (if \<exists>c \<in> set s. 128 \<le> (of_char c :: nat)
      then Inl (ValueError ''string argument should contain only ASCII characters'')
      else a2b_base64_loop (map (\<lambda>c. of_nat (of_char c)) s) 0 0 0 [])"

text \<open>
  UTF-8 between bytes and strings whose code points are below 256: one byte for a
  code point below 128, two bytes (lead byte \<^verbatim>\<open>0xC2\<close> or \<^verbatim>\<open>0xC3\<close>) for the others. A
  byte sequence that is not UTF-8 cannot be decoded; neither can, in this model, one
  that encodes a code point from 256 on, which a \<^typ>\<open>string\<close> cannot hold.
\<close>

fun utf8_decode :: "bytes \<Rightarrow> error + string" where
  "utf8_decode [] = Inr []"
| "utf8_decode (b # bs) =
     (if unat b < 128 then
        (case utf8_decode bs of Inl e \<Rightarrow> Inl e | Inr s \<Rightarrow> Inr (char_of (unat b) # s))
      else
        (case bs of
           [] \<Rightarrow> Inl (UnicodeDecodeError ''utf-8'')
         | c # cs \<Rightarrow>
             (if (unat b = 194 \<or> unat b = 195) \<and> 128 \<le> unat c \<and> unat c < 192 then
                (case utf8_decode cs of
                   Inl e \<Rightarrow> Inl e
                 | Inr s \<Rightarrow> Inr (char_of ((unat b - 192) * 64 + (unat c - 128)) # s))
              else Inl (UnicodeDecodeError ''utf-8''))))"

fun utf8_encode :: "string \<Rightarrow> bytes" where
  "utf8_encode [] = []"
| "utf8_encode (c # cs) =
     (let n = (of_char c :: nat) in
      if n < 128 then of_nat n # utf8_encode cs
      else of_nat (192 + n div 64) # of_nat (128 + n mod 64) # utf8_encode cs)"

text \<open>
  \<^verbatim>\<open>bytes.decode(encoding)\<close>. The codec is found by its normalised name
  (\<^verbatim>\<open>encodings.normalize_encoding\<close>, then lower case): every run of characters that
  are neither alphanumeric nor a dot becomes one underscore, an underscore at either
  end is dropped, and only ASCII characters are kept; so \<^verbatim>\<open>'utf-8'\<close> and
  \<^verbatim>\<open>'utf-8)'\<close> both name \<^verbatim>\<open>utf_8\<close>. Only the UTF-8 codec is modelled, under
  the names \<^verbatim>\<open>utf_8\<close> and \<^verbatim>\<open>utf8\<close>.
\<close>

definition isalnum :: "char \<Rightarrow> bool" where
  "isalnum c =
     (let n = (of_char c :: nat) in
      (48 \<le> n \<and> n \<le> 57) \<or> (65 \<le> n \<and> n \<le> 90) \<or> (97 \<le> n \<and> n \<le> 122)
      \<or> n \<in> set [170, 178, 179, 181, 185, 186, 188, 189, 190]
      \<or> (192 \<le> n \<and> n \<le> 255 \<and> n \<noteq> 215 \<and> n \<noteq> 247))"

definition isascii :: "char \<Rightarrow> bool" where
  "isascii c = ((of_char c :: nat) < 128)"

definition tolower :: "char \<Rightarrow> char" where
  "tolower c =
     (let n = (of_char c :: nat) in if 65 \<le> n \<and> n \<le> 90 then char_of (n + 32) else c)"

fun normalize_encoding_from :: "bool \<Rightarrow> string \<Rightarrow> string \<Rightarrow> string" where
  "normalize_encoding_from punct chars [] = chars"
| "normalize_encoding_from punct chars (c # cs) =
     (if isalnum c \<or> c = CHR ''.'' then
        normalize_encoding_from False
          ((if punct \<and> chars \<noteq> [] then chars @ ''_'' else chars)
           @ (if isascii c then [c] else [])) cs
      else normalize_encoding_from True chars cs)"

definition normalize_encoding :: "string \<Rightarrow> string" where
  "normalize_encoding encoding = normalize_encoding_from False [] encoding"

definition bytes_decode :: "string \<Rightarrow> bytes \<Rightarrow> error + string" where
  "bytes_decode encoding bs =
     (if map tolower (normalize_encoding encoding) \<in> set [''utf_8'', ''utf8'']
      then utf8_decode bs
      else Inl (LookupError (''unknown encoding: '' @ encoding)))"

subsection \<open>The runtime\<close>

text \<open>
  A hash algorithm of \<^verbatim>\<open>hashlib\<close>: its digest size and its digest function, which has
  no value for the algorithms whose \<^verbatim>\<open>digest()\<close> needs a length (the SHAKE family). A
  hash object is the algorithm with the bytes fed so far: \<^verbatim>\<open>update(a)\<close> then
  \<^verbatim>\<open>update(b)\<close> is \<^verbatim>\<open>update(a + b)\<close>, as \<^verbatim>\<open>hashlib\<close> documents.
\<close>

record hash_alg =
  digest_size :: nat
  digest_fn :: "bytes \<Rightarrow> bytes option"

record hasher =
  hasher_alg :: hash_alg
  hasher_fed :: bytes

definition hasher_update :: "hasher \<Rightarrow> bytes \<Rightarrow> hasher" where
  "hasher_update h buffer = h\<lparr>hasher_fed := hasher_fed h @ buffer\<rparr>"

definition hasher_digest :: "hasher \<Rightarrow> error + bytes" where
  "hasher_digest h =
     (case digest_fn (hasher_alg h) (hasher_fed h) of
        None \<Rightarrow> Inl (TypeError ''digest() missing required argument 'length' (pos 1)'')
      | Some d \<Rightarrow> Inr d)"

type_synonym mode = "16 word"

text \<open>
  What the module reads from its environment:
  \<^item> \<open>system\<close>, \<open>machine\<close>: \<^verbatim>\<open>platform.system()\<close> and \<^verbatim>\<open>platform.machine()\<close>;
  \<^item> \<open>algorithms_available\<close>: \<^verbatim>\<open>hashlib.algorithms_available\<close> in iteration order;
    \<open>hashlib_new\<close>: \<^verbatim>\<open>hashlib.new\<close>, \<open>None\<close> where it raises;
  \<^item> \<open>urlparse\<close>: the scheme and the network location that \<^verbatim>\<open>urllib.parse.urlparse\<close>
    finds, or the message of the \<^verbatim>\<open>ValueError\<close> it raises;
  \<^item> \<open>urlopen\<close>: the body served at a URL, or the reason of the \<^verbatim>\<open>URLError\<close>;
  \<^item> \<open>environment_dir\<close>: \<^verbatim>\<open>lang_base.environment_dir\<close>, the directory of a prefix,
    a language directory name and a version;
  \<^item> \<open>joinpath\<close>: \<^verbatim>\<open>Path(a) / b\<close> as the path of a file; \<open>path_str\<close>:
    \<^verbatim>\<open>str(Path(PurePath(s)))\<close>;
  \<^item> \<open>linesep\<close>: \<^verbatim>\<open>os.linesep\<close>; \<open>umask\<close>: the file mode creation mask.
\<close>

record runtime =
  system :: string
  machine :: string
  algorithms_available :: "string list"
  hashlib_new :: "string \<Rightarrow> hash_alg option"
  urlparse :: "string \<Rightarrow> string + (string \<times> string)"
  urlopen :: "string \<Rightarrow> string + bytes"
  environment_dir :: "string \<Rightarrow> string \<Rightarrow> string \<Rightarrow> string"
  joinpath :: "string \<Rightarrow> string \<Rightarrow> string"
  path_str :: "string \<Rightarrow> string"
  linesep :: string
  umask :: mode

definition new_hasher :: "runtime \<Rightarrow> string \<Rightarrow> error + hasher" where
  "new_hasher rt name =
     (case hashlib_new rt name of
        None \<Rightarrow> Inl (ValueError (''unsupported hash type '' @ name))
      | Some alg \<Rightarrow> Inr \<lparr>hasher_alg = alg, hasher_fed = []\<rparr>)"

subsection \<open>SRI: the integrity descriptor\<close>

record sri =
  sri_value :: string
  sri_algorithm :: string
  sri_checksum :: string

text \<open>
  \<^verbatim>\<open>SRI.__init__\<close>: the value is split at its first hyphen; the algorithm must be
  available, the checksum must be its own base64 re-encoding, and it must decode to as
  many bytes as the algorithm's digest has.
\<close>

definition SRI :: "runtime \<Rightarrow> string \<Rightarrow> error + sri" where
  "SRI rt v =
     (case split_once CHR ''-'' v of
        Inl e \<Rightarrow> Inl e
      | Inr (alg, chk) \<Rightarrow>
          if alg \<notin> set (algorithms_available rt) then
            Inl (ValueError (''`'' @ alg @ ''` is not available, choose one of: ''
                   @ join '','' (algorithms_available rt) @ ''`''))
          else
            (case b64decode chk of
               Inl e \<Rightarrow> Inl e
             | Inr decoded \<Rightarrow>
                 (case bytes_decode ''utf-8'' (b64encode decoded) of
                    Inl e \<Rightarrow> Inl e
                  | Inr encoded \<Rightarrow>
                      if encoded \<noteq> chk then
                        Inl (ValueError (''Invalid checksum string, ''
                               @ ''the checksum string has to be encoded in base64.''))
                      else
                        (case new_hasher rt alg of
                           Inl e \<Rightarrow> Inl e
                         | Inr h \<Rightarrow>
                             (let checksum_len = length decoded in
                              if checksum_len \<noteq> digest_size (hasher_alg h) then
                                Inl (ValueError (''Invalid checksum string length of ''
                                       @ str_nat checksum_len @ '' for '' @ alg
                                       @ '', expected ''
                                       @ str_nat (digest_size (hasher_alg h))))
                              else
                                Inr \<lparr>sri_value = v, sri_algorithm = alg,
                                     sri_checksum = chk\<rparr>)))))"

text \<open>
  \<^verbatim>\<open>SRI.check\<close> is a generator. \<open>check_next\<close> is one round of its loop on the hash
  object and the bytes not yet read: \<^verbatim>\<open>io.read(chunk)\<close> takes at most \<open>chunk\<close> bytes
  from the source; a non-empty buffer is hashed and yielded; an empty one ends the loop,
  and only then is the digest encoded and compared.
\<close>

datatype gen_step = Yield bytes hasher bytes | Return | Raise error

definition check_next :: "sri \<Rightarrow> nat \<Rightarrow> hasher \<Rightarrow> bytes \<Rightarrow> gen_step" where
  "check_next self chunk h io =
     (let buffer = take chunk io in
      if buffer \<noteq> [] then Yield buffer (hasher_update h buffer) (drop chunk io)
      else
        (case hasher_digest h of
           Inl e \<Rightarrow> Raise e
         | Inr d \<Rightarrow>
             (case bytes_decode ''utf-8)'' (b64encode d) of
                Inl e \<Rightarrow> Raise e
              | Inr digest \<Rightarrow>
                  if digest \<noteq> sri_checksum self then
                    Raise (ChecksumMismatchError (sri_checksum self) digest
                             ''checksum mismatch'')
                  else Return)))"

text \<open>
  Running the generator to its end, as \<^verbatim>\<open>for _ in sri.check(fp): pass\<close> does: the
  chunks yielded, in order, and the exception that ended the iteration, if any.
\<close>

function check_loop :: "sri \<Rightarrow> nat \<Rightarrow> hasher \<Rightarrow> bytes \<Rightarrow> bytes list \<times> error option" where
  "check_loop self chunk h io =
     (case check_next self chunk h io of
        Yield buffer h' io' \<Rightarrow>
          (case check_loop self chunk h' io' of (bs, r) \<Rightarrow> (buffer # bs, r))
      | Return \<Rightarrow> ([], None)
      | Raise e \<Rightarrow> ([], Some e))"
  by pat_completeness auto
termination
  by (relation "measure (\<lambda>(self, chunk, h, io). length io)")
     (auto simp: check_next_def Let_def split: if_splits sum.splits)

declare check_loop.simps [simp del]

text \<open>
  The generator's body starts with \<^verbatim>\<open>hashlib.new(self.algorithm)\<close>; the default chunk
  size is 4096.
\<close>

definition check :: "runtime \<Rightarrow> sri \<Rightarrow> nat \<Rightarrow> bytes \<Rightarrow> bytes list \<times> error option" where
  "check rt self chunk io =
     (case new_hasher rt (sri_algorithm self) of
        Inl e \<Rightarrow> ([], Some e)
      | Inr h \<Rightarrow> check_loop self chunk h io)"

definition default_chunk :: nat where
  "default_chunk = 4096"

text \<open>
  What the comparison at the end of the stream gives for a hash object: nothing when
  the encoded digest is the stored checksum, the exception otherwise.
\<close>

definition final_outcome :: "sri \<Rightarrow> hasher \<Rightarrow> error option" where
  "final_outcome self h =
     (case hasher_digest h of
        Inl e \<Rightarrow> Some e
      | Inr d \<Rightarrow>
          if ascii_text (b64encode d) \<noteq> sri_checksum self
          then Some (ChecksumMismatchError (sri_checksum self) (ascii_text (b64encode d))
                       ''checksum mismatch'')
          else None)"


subsection \<open>Platform: the host token\<close>

text \<open>
  The two class-level mappings, in the order of the source, from the names that
  \<^verbatim>\<open>platform.system()\<close> and \<^verbatim>\<open>platform.machine()\<close> report to the names used in
  a token.
\<close>

definition Platform_OS :: "(string \<times> string) list" where
  "Platform_OS =
     [(''Linux'', ''linux''), (''Darwin'', ''darwin''), (''Windows'', ''windows''),
      (''DragonFly'', ''dragonfly''), (''FreeBSD'', ''freebsd'')]"

definition Platform_CPU :: "(string \<times> string) list" where
  "Platform_CPU =
     [(''aarch64'', ''arm64''), (''aarch64_be'', ''arm64be''), (''arm'', ''arm''),
      (''i386'', ''386''), (''i686'', ''386''), (''x86_64'', ''amd64''),
      (''AMD64'', ''amd64''), (''ppc'', ''ppc''), (''ppc64'', ''ppc64''),
      (''ppc64le'', ''ppc64le'')]"

text \<open>\<^verbatim>\<open>mapping.values()\<close> and \<^verbatim>\<open>mapping[key]\<close>, which raises \<^verbatim>\<open>KeyError(key)\<close>.\<close>

definition dict_values :: "('k \<times> 'v) list \<Rightarrow> 'v list" where
  "dict_values m = map snd m"

definition dict_getitem :: "(string \<times> 'v) list \<Rightarrow> string \<Rightarrow> error + 'v" where
  "dict_getitem m k = (case map_of m k of None \<Rightarrow> Inl (KeyError k) | Some v \<Rightarrow> Inr v)"

datatype platform = MkPlatform (platform_value: string)

text \<open>\<^verbatim>\<open>Platform.parts\<close>: \<^verbatim>\<open>first, second = self.value.split('/', 1)\<close>.\<close>

definition Platform_parts :: "string \<Rightarrow> error + (string \<times> string)" where
  "Platform_parts v = split_once CHR ''/'' v"

text \<open>\<^verbatim>\<open>Platform.__init__\<close>.\<close>

definition Platform :: "string \<Rightarrow> error + platform" where
  "Platform v =
     (case Platform_parts v of
        Inl e \<Rightarrow> Inl e
      | Inr (os, cpu) \<Rightarrow>
          if os \<notin> set (dict_values Platform_OS) then
            Inl (ValueError (''invalid operating system `'' @ os @ ''`, valid values are: ''
                   @ join '','' (dict_values Platform_OS)))
          else if cpu \<notin> set (dict_values Platform_CPU) then
            Inl (ValueError (''invalid CPU `'' @ cpu @ ''`, valid values are: ''
                   @ join '','' (dict_values Platform_CPU)))
          else Inr (MkPlatform v))"

text \<open>
  The properties \<^verbatim>\<open>os\<close> and \<^verbatim>\<open>cpu\<close> split the value again; on a constructed
  token the split cannot fail, and they are the text before and after the first slash.
\<close>

definition platform_os :: "platform \<Rightarrow> string" where
  "platform_os p = takeWhile (\<lambda>c. c \<noteq> CHR ''/'') (platform_value p)"

definition platform_cpu :: "platform \<Rightarrow> string" where
  "platform_cpu p = tl (dropWhile (\<lambda>c. c \<noteq> CHR ''/'') (platform_value p))"

text \<open>\<^verbatim>\<open>Platform.__str__\<close> and \<^verbatim>\<open>Platform.__eq__\<close> (between two tokens).\<close>

definition platform_str :: "platform \<Rightarrow> string" where
  "platform_str p = platform_os p @ ''/'' @ platform_cpu p"

definition platform_eq :: "platform \<Rightarrow> platform \<Rightarrow> bool" where
  "platform_eq self other =
     (platform_os other = platform_os self \<and> platform_cpu other = platform_cpu self)"

text \<open>\<^verbatim>\<open>Platform.host\<close>: both names are looked up, then the token is constructed.\<close>

definition Platform_host :: "runtime \<Rightarrow> error + platform" where
  "Platform_host rt =
     (case dict_getitem Platform_OS (system rt) of
        Inl e \<Rightarrow> Inl e
      | Inr os \<Rightarrow>
          (case dict_getitem Platform_CPU (machine rt) of
             Inl e \<Rightarrow> Inl e
           | Inr cpu \<Rightarrow> Platform (os @ ''/'' @ cpu)))"

subsection \<open>URI and Metadata\<close>

datatype uri = MkURI (uri_value: string)

text \<open>\<^verbatim>\<open>URI.__post_init__\<close>: the scheme and the network location must not be empty.\<close>

definition URI :: "runtime \<Rightarrow> string \<Rightarrow> error + uri" where
  "URI rt v =
     (case urlparse rt v of
        Inl msg \<Rightarrow> Inl (ValueError msg)
      | Inr (scheme, netloc) \<Rightarrow>
          if scheme = [] \<or> netloc = [] then Inl (ValueError (''Invalid URI: '' @ v))
          else Inr (MkURI v))"

text \<open>
  \<^verbatim>\<open>Metadata.parts\<close>: \<^verbatim>\<open>first, second, third, fourth = self.value.splitlines()\<close>.
  Each property of a \<^verbatim>\<open>Metadata\<close> splits the value again and parses its own line.
\<close>

definition Metadata_parts :: "string \<Rightarrow> error + (string \<times> string \<times> string \<times> string)" where
  "Metadata_parts v =
     (case splitlines v of
        [first, second, third, fourth] \<Rightarrow> Inr (first, second, third, fourth)
      | xs \<Rightarrow>
          if length xs < 4 then
            Inl (ValueError (''not enough values to unpack (expected 4, got ''
                   @ str_nat (length xs) @ '')''))
          else Inl (ValueError ''too many values to unpack (expected 4)''))"

definition Metadata_platform :: "string \<Rightarrow> error + platform" where
  "Metadata_platform v =
     (case Metadata_parts v of Inl e \<Rightarrow> Inl e | Inr (p, _, _, _) \<Rightarrow> Platform p)"

definition Metadata_sri :: "runtime \<Rightarrow> string \<Rightarrow> error + sri" where
  "Metadata_sri rt v =
     (case Metadata_parts v of Inl e \<Rightarrow> Inl e | Inr (_, s, _, _) \<Rightarrow> SRI rt s)"

definition Metadata_uri :: "runtime \<Rightarrow> string \<Rightarrow> error + uri" where
  "Metadata_uri rt v =
     (case Metadata_parts v of Inl e \<Rightarrow> Inl e | Inr (_, _, u, _) \<Rightarrow> URI rt u)"

definition Metadata_filename :: "string \<Rightarrow> error + string" where
  "Metadata_filename v =
     (case Metadata_parts v of Inl e \<Rightarrow> Inl e | Inr (_, _, _, path) \<Rightarrow> Inr path)"

subsection \<open>The file system\<close>

text \<open>
  A file has its bytes and its permission bits; the world is the regular files and the
  directories, by path. Opening a path for writing creates the file with the mode that
  the mask leaves of \<^verbatim>\<open>0o666\<close>, or empties it and keeps its mode; a directory cannot
  be opened. The permission checks of the operating system, the parents of a path and
  failures in the middle of a transfer are not modelled.
\<close>

record regfile =
  file_content :: bytes
  file_mode :: mode

record world =
  files :: "string \<rightharpoonup> regfile"
  dirs :: "string set"

definition S_IRUSR :: mode where "S_IRUSR = 0x100"
definition S_IWUSR :: mode where "S_IWUSR = 0x80"
definition S_IXUSR :: mode where "S_IXUSR = 0x40"
definition S_IRWXG :: mode where "S_IRWXG = 0x38"
definition S_IRWXO :: mode where "S_IRWXO = 0x7"

definition opened_mode :: "runtime \<Rightarrow> world \<Rightarrow> string \<Rightarrow> mode" where
  "opened_mode rt w path =
     (case files w path of None \<Rightarrow> 0x1B6 AND NOT (umask rt) | Some f \<Rightarrow> file_mode f)"

definition open_write :: "runtime \<Rightarrow> string \<Rightarrow> world \<Rightarrow> error + world" where
  "open_write rt path w =
     (if path \<in> dirs w then Inl (IsADirectoryError path)
      else Inr (w\<lparr>files := (files w)(path \<mapsto>
                  \<lparr>file_content = [], file_mode = opened_mode rt w path\<rparr>)\<rparr>))"

definition fp_write :: "string \<Rightarrow> bytes \<Rightarrow> world \<Rightarrow> world" where
  "fp_write path buffer w =
     w\<lparr>files := (files w)(path :=
          map_option (\<lambda>f. f\<lparr>file_content := file_content f @ buffer\<rparr>) (files w path))\<rparr>"


text \<open>\<^verbatim>\<open>os.chmod(path, mode)\<close>.\<close>

definition chmod :: "string \<Rightarrow> mode \<Rightarrow> world \<Rightarrow> error + world" where
  "chmod path m w =
     (case files w path of
        None \<Rightarrow> Inl (FileNotFoundError path)
      | Some f \<Rightarrow> Inr (w\<lparr>files := (files w)(path \<mapsto> f\<lparr>file_mode := m\<rparr>)\<rparr>))"

text \<open>\<^verbatim>\<open>Path.mkdir(parents=True, exist_ok=True)\<close>.\<close>

definition mkdir :: "string \<Rightarrow> world \<Rightarrow> error + world" where
  "mkdir path w =
     (if path \<in> dirs w then Inr w
      else if files w path \<noteq> None then Inl (FileExistsError path)
      else Inr (w\<lparr>dirs := insert path (dirs w)\<rparr>))"

text \<open>
  A text stream opened with \<^verbatim>\<open>encoding='utf8'\<close>. Written text has each line feed
  replaced by \<^verbatim>\<open>os.linesep\<close>. Iterating over a stream opened for reading gives its
  lines, each with its line feed, where a carriage return, alone or before a line
  feed, counts as a line feed.
\<close>

definition text_encode :: "runtime \<Rightarrow> string \<Rightarrow> bytes" where
  "text_encode rt s =
     utf8_encode (concat (map (\<lambda>c. if c = CHR 0x0A then linesep rt else [c]) s))"



subsection \<open>download\<close>

text \<open>
  The loop \<^verbatim>\<open>for buffer in sri.check(ws): fp.write(buffer)\<close>: each chunk is written
  as soon as the generator yields it; an exception of the generator ends the loop with
  the file as written so far.
\<close>

function download_loop ::
  "sri \<Rightarrow> nat \<Rightarrow> hasher \<Rightarrow> bytes \<Rightarrow> string \<Rightarrow> world \<Rightarrow> error option \<times> world" where
  "download_loop self chunk h io filename w =
     (case check_next self chunk h io of
        Yield buffer h' io' \<Rightarrow> download_loop self chunk h' io' filename (fp_write filename buffer w)
      | Return \<Rightarrow> (None, w)
      | Raise e \<Rightarrow> (Some e, w))"
  by pat_completeness auto
termination
  by (relation "measure (\<lambda>(self, chunk, h, io, filename, w). length io)")
     (auto simp: check_next_def Let_def split: if_splits sum.splits)

declare download_loop.simps [simp del]

text \<open>
  \<^verbatim>\<open>download\<close>: the URL is opened, then the file; the verified stream is written;
  only when the generator has returned are the permission bits set.
\<close>

definition download :: "runtime \<Rightarrow> uri \<Rightarrow> sri \<Rightarrow> string \<Rightarrow> world \<Rightarrow> (error + unit) \<times> world" where
  "download rt u self filename w =
     (case urlopen rt (uri_value u) of
        Inl reason \<Rightarrow> (Inl (URLError reason), w)
      | Inr ws \<Rightarrow>
          (case open_write rt filename w of
             Inl e \<Rightarrow> (Inl e, w)
           | Inr w1 \<Rightarrow>
               (case new_hasher rt (sri_algorithm self) of
                  Inl e \<Rightarrow> (Inl e, w1)
                | Inr h \<Rightarrow>
                    (case download_loop self default_chunk h ws filename w1 of
                       (Some e, w2) \<Rightarrow> (Inl e, w2)
                     | (None, w2) \<Rightarrow>
                         (case chmod filename (S_IRUSR OR S_IXUSR) w2 of
                            Inl e \<Rightarrow> (Inl e, w2)
                          | Inr w3 \<Rightarrow> (Inr (), w3))))))"

subsection \<open>install\_environment\<close>

definition ENVIRONMENT_DIR :: string where
  "ENVIRONMENT_DIR = ''download''"

text \<open>\<^verbatim>\<open>repr\<close> of a string and of a list of strings, as an f-string renders them.\<close>

definition hex_digit :: "nat \<Rightarrow> char" where
  "hex_digit d = (if d < 10 then char_of (48 + d) else char_of (87 + d))"

definition repr_char :: "char \<Rightarrow> char \<Rightarrow> string" where
  "repr_char quote c =
     (let n = (of_char c :: nat) in
      if c = quote \<or> c = CHR 0x5C then [CHR 0x5C, c]
      else if n = 9 then [CHR 0x5C, CHR ''t'']
      else if n = 10 then [CHR 0x5C, CHR ''n'']
      else if n = 13 then [CHR 0x5C, CHR ''r'']
      else if n < 32 \<or> (127 \<le> n \<and> n \<le> 160) \<or> n = 173 then
        [CHR 0x5C, CHR ''x'', hex_digit (n div 16), hex_digit (n mod 16)]
      else [c])"

definition repr_str :: "string \<Rightarrow> string" where
  "repr_str s =
     (let quote = (if CHR 0x27 \<in> set s \<and> CHR 0x22 \<notin> set s then CHR 0x22 else CHR 0x27)
      in [quote] @ concat (map (repr_char quote) s) @ [quote])"

definition repr_list :: "string list \<Rightarrow> string" where
  "repr_list xs = ''['' @ join '', '' (map repr_str xs) @ '']''"

text \<open>
  The body of the loop for the entry whose platform is the host's: the directory is
  made, the file name, the URI and the descriptor are parsed in this order, the file is
  downloaded, and last the sidecar \<^verbatim>\<open>health.srisum\<close> is written.
\<close>

definition install_entry :: "runtime \<Rightarrow> string \<Rightarrow> string \<Rightarrow> string \<Rightarrow> world \<Rightarrow> (error + unit) \<times> world" where
  "install_entry rt prefix version dep w =
     (let envdir = environment_dir rt prefix ENVIRONMENT_DIR version in
      case mkdir envdir w of
        Inl e \<Rightarrow> (Inl e, w)
      | Inr w1 \<Rightarrow>
          (case Metadata_filename dep of
             Inl e \<Rightarrow> (Inl e, w1)
           | Inr filename \<Rightarrow>
               (case Metadata_uri rt dep of
                  Inl e \<Rightarrow> (Inl e, w1)
                | Inr u \<Rightarrow>
                    (case Metadata_sri rt dep of
                       Inl e \<Rightarrow> (Inl e, w1)
                     | Inr s \<Rightarrow>
                         (case download rt u s (joinpath rt envdir filename) w1 of
                            (Inl e, w2) \<Rightarrow> (Inl e, w2)
                          | (Inr _, w2) \<Rightarrow>
                              (let srisum = joinpath rt envdir ''health.srisum'' in
                               case open_write rt srisum w2 of
                                 Inl e \<Rightarrow> (Inl e, w2)
                               | Inr w3 \<Rightarrow>
                                   (Inr (),
                                    fp_write srisum
                                      (text_encode rt
                                         (sri_value s @ ''  '' @ path_str rt filename
                                          @ ''\<newline>''))
                                      w3)))))))"

text \<open>
  The loop over \<^verbatim>\<open>additional_dependencies\<close>; \<open>deps\<close> is what is left of the list and
  \<open>additional_dependencies\<close> the whole of it, for the message of the \<^verbatim>\<open>KeyError\<close>
  raised when the loop ends without a match.
\<close>

fun install_loop ::
  "runtime \<Rightarrow> string \<Rightarrow> string \<Rightarrow> platform \<Rightarrow> string list \<Rightarrow> string list \<Rightarrow> world
     \<Rightarrow> (error + unit) \<times> world" where
  "install_loop rt prefix version host additional_dependencies [] w =
     (Inl (KeyError (''Failed to find platform `'' @ platform_str host
                     @ ''` in `additional_dependencies`: ''
                     @ repr_list additional_dependencies)), w)"
| "install_loop rt prefix version host additional_dependencies (dep # deps) w =
     (case Metadata_platform dep of
        Inl e \<Rightarrow> (Inl e, w)
      | Inr p \<Rightarrow>
          if platform_eq host p then install_entry rt prefix version dep w
          else install_loop rt prefix version host additional_dependencies deps w)"

definition install_environment ::
  "runtime \<Rightarrow> string \<Rightarrow> string \<Rightarrow> string list \<Rightarrow> world \<Rightarrow> (error + unit) \<times> world" where
  "install_environment rt prefix version additional_dependencies w =
     (case Platform_host rt of
        Inl e \<Rightarrow> (Inl e, w)
      | Inr host \<Rightarrow>
          install_loop rt prefix version host additional_dependencies
            additional_dependencies w)"

subsection \<open>health\_check\<close>




subsection \<open>An example host\<close>

text \<open>
  The theorems below hold for every runtime. Their concrete instances run on one
  host: a Linux machine with an \<^verbatim>\<open>x86_64\<close> processor whose \<^verbatim>\<open>hashlib\<close> offers
  SHA-256 and whose network answers every URL with one fixed body. SHA-256 is written
  out on natural numbers below \<open>2^32\<close>, so that a digest can be computed by rewriting.
\<close>

definition add32 :: "nat \<Rightarrow> nat \<Rightarrow> nat" where
  "add32 x y = (x + y) mod 4294967296"

definition rotr32 :: "nat \<Rightarrow> nat \<Rightarrow> nat" where
  "rotr32 n x = x div 2 ^ n + x mod 2 ^ n * 2 ^ (32 - n)"

definition not32 :: "nat \<Rightarrow> nat" where
  "not32 x = 4294967295 - x"

definition Ch :: "nat \<Rightarrow> nat \<Rightarrow> nat \<Rightarrow> nat" where
  "Ch x y z = (x AND y) XOR (not32 x AND z)"

definition Maj :: "nat \<Rightarrow> nat \<Rightarrow> nat \<Rightarrow> nat" where
  "Maj x y z = (x AND y) XOR (x AND z) XOR (y AND z)"

definition Sigma0 :: "nat \<Rightarrow> nat" where
  "Sigma0 x = rotr32 2 x XOR rotr32 13 x XOR rotr32 22 x"

definition Sigma1 :: "nat \<Rightarrow> nat" where
  "Sigma1 x = rotr32 6 x XOR rotr32 11 x XOR rotr32 25 x"

definition sigma0 :: "nat \<Rightarrow> nat" where
  "sigma0 x = rotr32 7 x XOR rotr32 18 x XOR x div 2 ^ 3"

definition sigma1 :: "nat \<Rightarrow> nat" where
  "sigma1 x = rotr32 17 x XOR rotr32 19 x XOR x div 2 ^ 10"

definition sha256_K :: "nat list" where
  "sha256_K =
     [0x428A2F98, 0x71374491, 0xB5C0FBCF, 0xE9B5DBA5, 0x3956C25B, 0x59F111F1,
      0x923F82A4, 0xAB1C5ED5, 0xD807AA98, 0x12835B01, 0x243185BE, 0x550C7DC3,
      0x72BE5D74, 0x80DEB1FE, 0x9BDC06A7, 0xC19BF174, 0xE49B69C1, 0xEFBE4786,
      0x0FC19DC6, 0x240CA1CC, 0x2DE92C6F, 0x4A7484AA, 0x5CB0A9DC, 0x76F988DA,
      0x983E5152, 0xA831C66D, 0xB00327C8, 0xBF597FC7, 0xC6E00BF3, 0xD5A79147,
      0x06CA6351, 0x14292967, 0x27B70A85, 0x2E1B2138, 0x4D2C6DFC, 0x53380D13,
      0x650A7354, 0x766A0ABB, 0x81C2C92E, 0x92722C85, 0xA2BFE8A1, 0xA81A664B,
      0xC24B8B70, 0xC76C51A3, 0xD192E819, 0xD6990624, 0xF40E3585, 0x106AA070,
      0x19A4C116, 0x1E376C08, 0x2748774C, 0x34B0BCB5, 0x391C0CB3, 0x4ED8AA4A,
      0x5B9CCA4F, 0x682E6FF3, 0x748F82EE, 0x78A5636F, 0x84C87814, 0x8CC70208,
      0x90BEFFFA, 0xA4506CEB, 0xBEF9A3F7, 0xC67178F2]"

definition sha256_H0 :: "nat list" where
  "sha256_H0 =
     [0x6A09E667, 0xBB67AE85, 0x3C6EF372, 0xA54FF53A, 0x510E527F, 0x9B05688C,
      0x1F83D9AB, 0x5BE0CD19]"

text \<open>One round on the eight working variables, with the round constant and the word.\<close>

fun sha256_round :: "nat \<Rightarrow> nat \<Rightarrow> nat list \<Rightarrow> nat list" where
  "sha256_round k w [a, b, c, d, e, f, g, h] =
     [add32 (add32 (add32 (add32 (add32 h (Sigma1 e)) (Ch e f g)) k) w)
            (add32 (Sigma0 a) (Maj a b c)),
      a, b, c,
      add32 d (add32 (add32 (add32 (add32 h (Sigma1 e)) (Ch e f g)) k) w),
      e, f, g]"
| "sha256_round k w st = st"

text \<open>
  The message schedule, most recent word first; one more word for each round constant
  left after the sixteen words of the block.
\<close>

definition sha256_next_w :: "nat list \<Rightarrow> nat" where
  "sha256_next_w hist =
     add32 (add32 (add32 (sigma1 (hist ! 1)) (hist ! 6)) (sigma0 (hist ! 14))) (hist ! 15)"

fun sha256_schedule :: "nat list \<Rightarrow> nat list \<Rightarrow> nat list" where
  "sha256_schedule [] hist = rev hist"
| "sha256_schedule (k # ks) hist = sha256_schedule ks (sha256_next_w hist # hist)"

fun sha256_rounds :: "nat list \<Rightarrow> nat list \<Rightarrow> nat list \<Rightarrow> nat list" where
  "sha256_rounds (k # ks) (w # ws) st = sha256_rounds ks ws (sha256_round k w st)"
| "sha256_rounds ks ws st = st"

definition sha256_compress :: "nat list \<Rightarrow> nat list \<Rightarrow> nat list" where
  "sha256_compress st block =
     map2 add32 st
       (sha256_rounds sha256_K (sha256_schedule (drop 16 sha256_K) (rev block)) st)"

function sha256_blocks :: "nat list \<Rightarrow> nat list \<Rightarrow> nat list" where
  "sha256_blocks st ws =
     (if ws = [] then st else sha256_blocks (sha256_compress st (take 16 ws)) (drop 16 ws))"
  by pat_completeness auto
termination
  by (relation "measure (\<lambda>(st, ws). length ws)") auto

declare sha256_blocks.simps [simp del]

fun be_words :: "nat list \<Rightarrow> nat list" where
  "be_words (a # b # c # d # rest) = (((a * 256 + b) * 256 + c) * 256 + d) # be_words rest"
| "be_words rest = []"

definition be_bytes :: "nat \<Rightarrow> nat \<Rightarrow> nat list" where
  "be_bytes n x = map (\<lambda>i. x div 256 ^ i mod 256) (rev [0..<n])"

definition sha256_pad :: "nat list \<Rightarrow> nat list" where
  "sha256_pad m =
     m @ [128] @ replicate ((119 - length m mod 64) mod 64) 0 @ be_bytes 8 (8 * length m)"

definition sha256 :: "bytes \<Rightarrow> bytes" where
  "sha256 m =
     map of_nat (concat (map (be_bytes 4)
       (sha256_blocks sha256_H0 (be_words (sha256_pad (map unat m))))))"

definition sha256_alg :: hash_alg where
  "sha256_alg = \<lparr>digest_size = 32, digest_fn = (\<lambda>m. Some (sha256 m))\<rparr>"

text \<open>
  The scheme and the network location of a URL of the form \<^verbatim>\<open>scheme://netloc/path\<close>,
  which is all the example host needs of \<^verbatim>\<open>urlparse\<close>.
\<close>

definition simple_urlparse :: "string \<Rightarrow> string + (string \<times> string)" where
  "simple_urlparse u =
     (let scheme = takeWhile (\<lambda>c. c \<noteq> CHR '':'') u;
          rest = dropWhile (\<lambda>c. c \<noteq> CHR '':'') u
      in if take 3 rest = ''://''
         then Inr (scheme, takeWhile (\<lambda>c. c \<noteq> CHR ''/'') (drop 3 rest))
         else Inr ([], []))"

definition example_host :: "bytes \<Rightarrow> runtime" where
  "example_host body =
     \<lparr>system = ''Linux'', machine = ''x86_64'',
      algorithms_available = [''sha256''],
      hashlib_new = (\<lambda>name. if name = ''sha256'' then Some sha256_alg else None),
      urlparse = simple_urlparse,
      urlopen = (\<lambda>url. Inr body),
      environment_dir = (\<lambda>prefix d version. prefix @ ''/'' @ d @ ''-'' @ version),
      joinpath = (\<lambda>a b. a @ ''/'' @ b),
      path_str = (\<lambda>s. s),
      linesep = ''\<newline>'',
      umask = 0x12\<rparr>"

definition bytes_of :: "string \<Rightarrow> bytes" where
  "bytes_of s = map (\<lambda>c. of_nat (of_char c)) s"

text \<open>The script that the tests of the repository serve, and its manifest entry.\<close>

definition shellscript :: bytes where
  "shellscript = bytes_of ''#!/bin/sh\<newline>echo hello\<newline>exit 123''"

definition shell_checksum :: string where
  "shell_checksum = ''oRJkj6Cr8nWIivZ9d3W+rVZt/aSW1l9YtxSVh+GtIHM=''"

definition empty_world :: world where
  "empty_world = \<lparr>files = Map.empty, dirs = {}\<rparr>"

subsection \<open>What an exception carries\<close>

text \<open>\<^verbatim>\<open>sub in s\<close> for two strings.\<close>

fun str_contains :: "string \<Rightarrow> string \<Rightarrow> bool" where
  "str_contains [] sub = (sub = [])"
| "str_contains (c # cs) sub = (take (length sub) (c # cs) = sub \<or> str_contains cs sub)"

text \<open>
  The arguments an exception was constructed with, \<^verbatim>\<open>e.args\<close>: the message or the
  key. \<^verbatim>\<open>ChecksumMismatchError.__init__\<close> takes keywords only and passes nothing on.
\<close>

fun error_args :: "error \<Rightarrow> string list" where
  "error_args (ValueError m) = [m]"
| "error_args (ChecksumMismatchError _ _ _) = []"
| "error_args (binascii_Error m) = [m]"
| "error_args (UnicodeDecodeError m) = [m]"
| "error_args (LookupError m) = [m]"
| "error_args (KeyError k) = [k]"
| "error_args (TypeError m) = [m]"
| "error_args (FileNotFoundError m) = [m]"
| "error_args (FileExistsError m) = [m]"
| "error_args (IsADirectoryError m) = [m]"
| "error_args (URLError m) = [m]"

subsection \<open>Test vectors\<close>

text \<open>
  The checksums that the tests of the repository use, each with the bytes it decodes
  to: the SHA-256 digests of the served script, of the seven bytes \<^verbatim>\<open>xxxxxxx\<close> that
  a test writes over the installed file, and of the empty body; the checksum of the
  mismatching manifest; and the checksum of 44 characters that decodes to 33 bytes.
\<close>

definition shell_digest :: bytes where
  "shell_digest =
     [161, 18, 100, 143, 160, 171, 242, 117, 136, 138, 246, 125, 119, 117, 190, 173,
      86, 109, 253, 164, 150, 214, 95, 88, 183, 20, 149, 135, 225, 173, 32, 115]"

definition wrong_checksum :: string where
  "wrong_checksum = ''oRJkj6Cr8nWIivZ9d4W+rVZt/aSW1l9YtxSVh+GtIHM=''"

definition wrong_digest :: bytes where
  "wrong_digest =
     [161, 18, 100, 143, 160, 171, 242, 117, 136, 138, 246, 125, 119, 133, 190, 173,
      86, 109, 253, 164, 150, 214, 95, 88, 183, 20, 149, 135, 225, 173, 32, 115]"

definition overwritten_checksum :: string where
  "overwritten_checksum = ''e3DTq0x2QVQuHxWLRY7q58+3vbgV1BEMxheLr8/fQ/g=''"

definition overwritten_digest :: bytes where
  "overwritten_digest =
     [123, 112, 211, 171, 76, 118, 65, 84, 46, 31, 21, 139, 69, 142, 234, 231,
      207, 183, 189, 184, 21, 212, 17, 12, 198, 23, 139, 175, 207, 223, 67, 248]"

definition empty_checksum :: string where
  "empty_checksum = ''47DEQpj8HBSa+/TImW+5JCeuQeRkm5NMpJWZG3hSuFU=''"

definition empty_digest :: bytes where
  "empty_digest =
     [227, 176, 196, 66, 152, 252, 28, 20, 154, 251, 244, 200, 153, 111, 185, 36,
      39, 174, 65, 228, 100, 155, 147, 76, 164, 149, 153, 27, 120, 82, 184, 85]"

definition invalid_length_checksum :: string where
  "invalid_length_checksum = ''xxxxxxxxxxxxxxxxxxxxxxxxxxxxxxxxxxxxxxxxxxxx''"

definition invalid_length_digest :: bytes where
  "invalid_length_digest =
     [199, 28, 113, 199, 28, 113, 199, 28, 113, 199, 28, 113, 199, 28, 113, 199,
      28, 113, 199, 28, 113, 199, 28, 113, 199, 28, 113, 199, 28, 113, 199, 28,
      113]"

definition overwritten :: bytes where
  "overwritten = bytes_of ''xxxxxxx''"

text \<open>The manifests of the tests, served at one address for both platforms.\<close>

definition linux_entry :: string where
  "linux_entry =
     ''linux/amd64\<newline>sha256-'' @ shell_checksum @ ''\<newline>http://127.0.0.1:5555\<newline>test.bat''"

definition windows_entry :: string where
  "windows_entry =
     ''windows/amd64\<newline>sha256-L63Nefq+fKVIm24IKqlcqbJmc1rrJD3dKhIvutFK+IA=''
     @ ''\<newline>http://127.0.0.1:5555\<newline>test.bat''"

definition healthy_dependencies :: "string list" where
  "healthy_dependencies = [linux_entry, windows_entry]"


definition windows_wrong_entry :: string where
  "windows_wrong_entry =
     ''windows/amd64\<newline>sha256-L63Nefq+fKVIm25IKqlcqbJmc1rrJD3dKhIvutFK+IA=''
     @ ''\<newline>http://127.0.0.1:5555\<newline>test.bat''"






section \<open>Properties\<close>

subsection \<open>The codecs\<close>

lemma b64_alphabet_ascii: "\<forall>c \<in> set b64_alphabet. (of_char c :: nat) < 128"
  by (simp add: b64_alphabet_def)

lemma b64_char_ascii: "unat (b64_char n) < 128"
proof -
  have "length b64_alphabet = 64" by (simp add: b64_alphabet_def)
  then have "b64_alphabet ! (n mod 64) \<in> set b64_alphabet" by simp
  then have lt: "(of_char (b64_alphabet ! (n mod 64)) :: nat) < 128"
    using b64_alphabet_ascii by blast
  then show ?thesis
    by (simp add: b64_char_def unat_of_nat)
qed

lemma b64encode_ascii: "b \<in> set (b64encode d) \<Longrightarrow> unat b < 128"
  by (induction d arbitrary: b rule: b64encode.induct) (auto simp: b64_char_ascii b64_pad_def)

lemma utf8_decode_ascii:
  "(\<And>b. b \<in> set bs \<Longrightarrow> unat b < 128) \<Longrightarrow> utf8_decode bs = Inr (ascii_text bs)"
  by (induction bs) (auto simp: ascii_text_def)

text \<open>The stray parenthesis in \<^verbatim>\<open>'utf-8)'\<close> does not change the codec.\<close>

lemma normalize_utf8_paren: "map tolower (normalize_encoding ''utf-8)'') = ''utf_8''"
  by (simp add: normalize_encoding_def isalnum_def isascii_def tolower_def Let_def)

lemma normalize_utf8: "map tolower (normalize_encoding ''utf-8'') = ''utf_8''"
  by (simp add: normalize_encoding_def isalnum_def isascii_def tolower_def Let_def)

lemma bytes_decode_b64_paren:
  "bytes_decode ''utf-8)'' (b64encode d) = Inr (ascii_text (b64encode d))"
  unfolding bytes_decode_def normalize_utf8_paren
  by (simp add: utf8_decode_ascii b64encode_ascii)

lemma bytes_decode_b64:
  "bytes_decode ''utf-8'' (b64encode d) = Inr (ascii_text (b64encode d))"
  unfolding bytes_decode_def normalize_utf8
  by (simp add: utf8_decode_ascii b64encode_ascii)

subsection \<open>Splitting\<close>

lemma split_once_append:
  "sep \<notin> set a \<Longrightarrow> split_once sep (a @ sep # b) = Inr (a, b)"
proof -
  assume h: "sep \<notin> set a"
  then have all: "\<And>x. x \<in> set a \<Longrightarrow> x \<noteq> sep" by auto
  have "takeWhile (\<lambda>c. c \<noteq> sep) (a @ sep # b) = a"
    using all by (simp add: takeWhile_append2)
  moreover have "dropWhile (\<lambda>c. c \<noteq> sep) (a @ sep # b) = sep # b"
    using all by (simp add: dropWhile_append2)
  ultimately show ?thesis by (simp add: split_once_def)
qed

lemma split_once_Inr:
  assumes h: "split_once sep s = Inr (a, b)"
  shows "s = a @ sep # b \<and> sep \<notin> set a"
proof -
  from h have mem: "sep \<in> set s"
    and a: "a = takeWhile (\<lambda>c. c \<noteq> sep) s"
    and b: "b = tl (dropWhile (\<lambda>c. c \<noteq> sep) s)"
    by (auto simp: split_once_def split: if_splits)
  from mem have ne: "dropWhile (\<lambda>c. c \<noteq> sep) s \<noteq> []"
    by (auto simp: dropWhile_eq_Nil_conv)
  then have "hd (dropWhile (\<lambda>c. c \<noteq> sep) s) = sep"
    using hd_dropWhile[of "\<lambda>c. c \<noteq> sep" s] by simp
  with ne have "dropWhile (\<lambda>c. c \<noteq> sep) s = sep # b"
    unfolding b by (cases "dropWhile (\<lambda>c. c \<noteq> sep) s") auto
  then have "s = a @ sep # b"
    unfolding a using takeWhile_dropWhile_id[of "\<lambda>c. c \<noteq> sep" s] by simp
  moreover have "sep \<notin> set a"
    unfolding a by (auto dest: set_takeWhileD)
  ultimately show ?thesis by simp
qed

lemma split_once_Inl:
  "split_once sep s = Inl e \<Longrightarrow>
   sep \<notin> set s \<and> e = ValueError ''not enough values to unpack (expected 2, got 1)''"
  by (auto simp: split_once_def split: if_splits)

subsection \<open>The classes of the errors\<close>

lemma a2b_base64_loop_error:
  "a2b_base64_loop bs q l p out = Inl e \<Longrightarrow> class_of e = C_binascii_Error"
  by (induction bs q l p out rule: a2b_base64_loop.induct)
     (auto split: if_splits option.splits)

lemma b64decode_error_class:
  "b64decode s = Inl e \<Longrightarrow> class_of e = C_ValueError \<or> class_of e = C_binascii_Error"
  by (auto simp: b64decode_def split: if_splits dest: a2b_base64_loop_error)

lemma SRI_error_class:
  "SRI rt v = Inl e \<Longrightarrow> class_of e = C_ValueError \<or> class_of e = C_binascii_Error"
  by (auto simp: SRI_def split_once_def new_hasher_def bytes_decode_b64 Let_def
           split: if_splits sum.splits prod.splits option.splits
           dest: b64decode_error_class)

lemma Platform_error_class: "Platform v = Inl e \<Longrightarrow> class_of e = C_ValueError"
  by (auto simp: Platform_def Platform_parts_def split_once_def
           split: if_splits sum.splits prod.splits)

lemma URI_error_class: "URI rt v = Inl e \<Longrightarrow> class_of e = C_ValueError"
  by (auto simp: URI_def split: if_splits sum.splits prod.splits)

subsection \<open>Parsing a descriptor\<close>

lemma SRI_success:
  assumes "CHR ''-'' \<notin> set alg" and "alg \<in> set (algorithms_available rt)"
    and "b64decode chk = Inr d" and "ascii_text (b64encode d) = chk"
    and "hashlib_new rt alg = Some h" and "length d = digest_size h"
  shows "SRI rt (alg @ ''-'' @ chk) =
           Inr \<lparr>sri_value = alg @ ''-'' @ chk, sri_algorithm = alg, sri_checksum = chk\<rparr>"
  using assms
  by (simp add: SRI_def split_once_append bytes_decode_b64 new_hasher_def)

lemma SRI_Inr_hasher:
  "SRI rt v = Inr self \<Longrightarrow> \<exists>alg. hashlib_new rt (sri_algorithm self) = Some alg"
  by (auto simp: SRI_def new_hasher_def Let_def
           split: if_splits sum.splits prod.splits option.splits)

subsection \<open>The generator\<close>

lemma check_next_yield:
  "take chunk io \<noteq> [] \<Longrightarrow>
   check_next self chunk h io =
     Yield (take chunk io) (hasher_update h (take chunk io)) (drop chunk io)"
  by (simp add: check_next_def Let_def)

lemma check_next_end:
  "take chunk io = [] \<Longrightarrow>
   check_next self chunk h io =
     (case hasher_digest h of
        Inl e \<Rightarrow> Raise e
      | Inr d \<Rightarrow>
          if ascii_text (b64encode d) \<noteq> sri_checksum self
          then Raise (ChecksumMismatchError (sri_checksum self) (ascii_text (b64encode d))
                        ''checksum mismatch'')
          else Return)"
  by (simp add: check_next_def Let_def bytes_decode_b64_paren split: sum.splits)

lemma check_loop_yield:
  "take chunk io \<noteq> [] \<Longrightarrow>
   check_loop self chunk h io =
     (take chunk io
        # fst (check_loop self chunk (hasher_update h (take chunk io)) (drop chunk io)),
      snd (check_loop self chunk (hasher_update h (take chunk io)) (drop chunk io)))"
  by (subst check_loop.simps) (simp add: check_next_yield split: prod.splits)

lemma check_loop_end:
  "take chunk io = [] \<Longrightarrow> check_loop self chunk h io = ([], final_outcome self h)"
  by (subst check_loop.simps) (simp add: check_next_end final_outcome_def split: sum.splits)

lemma take_empty_iff: "0 < chunk \<Longrightarrow> take chunk io = [] \<longleftrightarrow> io = []"
  by (cases io) auto

lemma check_loop_concat: "0 < chunk \<Longrightarrow> concat (fst (check_loop self chunk h io)) = io"
proof (induction self chunk h io rule: check_loop.induct)
  case (1 self chunk h io)
  show ?case
  proof (cases "take chunk io = []")
    case True
    with 1(2) show ?thesis by (simp add: check_loop_end take_empty_iff)
  next
    case False
    with 1 show ?thesis by (simp add: check_loop_yield check_next_yield)
  qed
qed

lemma check_loop_outcome:
  "0 < chunk \<Longrightarrow>
   snd (check_loop self chunk h io) = final_outcome self (h\<lparr>hasher_fed := hasher_fed h @ io\<rparr>)"
proof (induction self chunk h io rule: check_loop.induct)
  case (1 self chunk h io)
  show ?case
  proof (cases "take chunk io = []")
    case True
    with 1(2) show ?thesis by (simp add: check_loop_end take_empty_iff)
  next
    case False
    with 1 show ?thesis by (simp add: check_loop_yield check_next_yield hasher_update_def)
  qed
qed

subsection \<open>Platform tokens\<close>

lemma values_no_slash:
  "os \<in> set (dict_values Platform_OS) \<Longrightarrow> CHR ''/'' \<notin> set os"
  by (auto simp: dict_values_def Platform_OS_def)

text \<open>
  \<^bold>\<open>C9\<close>. Constructing a \<^verbatim>\<open>Platform\<close> from a string succeeds exactly when the
  string is \<open>os/cpu\<close> with \<open>os\<close> among the values of the mapping of the 5 operating
  systems and \<open>cpu\<close> among the values of the mapping of the 10 CPU names; it raises
  otherwise. (The ten entries of the CPU mapping have eight distinct values.)
\<close>

theorem Platform_allow_lists:
  "((\<exists>p. Platform v = Inr p) =
      (\<exists>os cpu. v = os @ ''/'' @ cpu \<and> os \<in> set (dict_values Platform_OS)
                \<and> cpu \<in> set (dict_values Platform_CPU)))
   \<and> ((\<exists>e. Platform v = Inl e) =
      (\<not> (\<exists>os cpu. v = os @ ''/'' @ cpu \<and> os \<in> set (dict_values Platform_OS)
                \<and> cpu \<in> set (dict_values Platform_CPU))))
   \<and> length (dict_values Platform_OS) = 5 \<and> length (dict_values Platform_CPU) = 10"
proof -
  let ?ok = "\<exists>os cpu. v = os @ ''/'' @ cpu \<and> os \<in> set (dict_values Platform_OS)
                \<and> cpu \<in> set (dict_values Platform_CPU)"
  have fwd: "?ok" if "Platform v = Inr p" for p
  proof -
    from that obtain os cpu where sp: "split_once CHR ''/'' v = Inr (os, cpu)"
      and os: "os \<in> set (dict_values Platform_OS)"
      and cpu: "cpu \<in> set (dict_values Platform_CPU)"
      by (auto simp: Platform_def Platform_parts_def split: sum.splits prod.splits if_splits)
    from split_once_Inr[OF sp] have "v = os @ ''/'' @ cpu" by simp
    with os cpu show ?thesis by blast
  qed
  have bwd: "Platform v = Inr (MkPlatform v)" if "?ok"
  proof -
    from that obtain os cpu where v: "v = os @ ''/'' @ cpu"
      and os: "os \<in> set (dict_values Platform_OS)"
      and cpu: "cpu \<in> set (dict_values Platform_CPU)" by blast
    have "split_once CHR ''/'' v = Inr (os, cpu)"
      unfolding v using split_once_append[OF values_no_slash[OF os], of cpu] by simp
    with os cpu show ?thesis
      by (simp add: Platform_def Platform_parts_def)
  qed
  have iff: "(\<exists>p. Platform v = Inr p) = ?ok"
    using fwd bwd by blast
  have "(\<exists>e. Platform v = Inl e) = (\<not> (\<exists>p. Platform v = Inr p))"
    by (cases "Platform v") auto
  with iff show ?thesis
    by (simp add: dict_values_def Platform_OS_def Platform_CPU_def)
qed

text \<open>
  The token \<^verbatim>\<open>linux/amd64\<close> is accepted; the names that \<^verbatim>\<open>platform\<close> reports,
  \<^verbatim>\<open>Linux\<close> and \<^verbatim>\<open>x86_64\<close>, are keys of the mappings and are refused in a token.
\<close>

theorem Platform_allow_lists_witness:
  "(\<exists>p. Platform ''linux/amd64'' = Inr p) \<and> (\<exists>e. Platform ''linux/x86_64'' = Inl e)
   \<and> (\<exists>e. Platform ''Linux/amd64'' = Inl e)"
proof -
  have a: "\<exists>os cpu. ''linux/amd64'' = os @ ''/'' @ cpu \<and> os \<in> set (dict_values Platform_OS)
                \<and> cpu \<in> set (dict_values Platform_CPU)"
    by (rule exI[of _ "''linux''"], rule exI[of _ "''amd64''"])
       (simp add: dict_values_def Platform_OS_def Platform_CPU_def)
  have b: "Platform ''linux/x86_64'' =
      Inl (ValueError (''invalid CPU `x86_64`, valid values are: ''
                       @ ''arm64,arm64be,arm,386,386,amd64,amd64,ppc,ppc64,ppc64le''))"
    by (simp add: Platform_def Platform_parts_def split_once_def dict_values_def
          Platform_OS_def Platform_CPU_def)
  have c: "Platform ''Linux/amd64'' =
      Inl (ValueError (''invalid operating system `Linux`, valid values are: ''
                       @ ''linux,darwin,windows,dragonfly,freebsd''))"
    by (simp add: Platform_def Platform_parts_def split_once_def dict_values_def
          Platform_OS_def Platform_CPU_def)
  from a Platform_allow_lists[of "''linux/amd64''"] b c show ?thesis by simp
qed

subsection \<open>The exception hierarchy\<close>

text \<open>
  \<^bold>\<open>C10\<close>. \<^verbatim>\<open>ChecksumMismatchError\<close> is a subclass of \<^verbatim>\<open>ValueError\<close>, the class of
  the failures of parsing a descriptor, a platform token or a URI: a handler that
  catches a \<^verbatim>\<open>ValueError\<close> catches a checksum mismatch too, and the only class that
  catches the mismatch and not a plain \<^verbatim>\<open>ValueError\<close> is \<^verbatim>\<open>ChecksumMismatchError\<close>
  itself.
\<close>

theorem checksum_mismatch_is_value_error:
  "issubclass C_ChecksumMismatchError C_ValueError
   \<and> (\<forall>c. isinstance (ValueError m) c \<longrightarrow> isinstance (ChecksumMismatchError ex ac msg) c)
   \<and> ((isinstance (ChecksumMismatchError ex ac msg) c \<and> \<not> isinstance (ValueError m) c)
        = (c = C_ChecksumMismatchError))
   \<and> (SRI rt v = Inl e \<longrightarrow> isinstance e C_ValueError)
   \<and> (Platform v = Inl e \<longrightarrow> isinstance e C_ValueError)
   \<and> (URI rt v = Inl e \<longrightarrow> isinstance e C_ValueError)"
proof -
  have 1: "issubclass C_ChecksumMismatchError C_ValueError"
    by (simp add: issubclass_def)
  have 2: "\<forall>c. isinstance (ValueError m) c \<longrightarrow> isinstance (ChecksumMismatchError ex ac msg) c"
    by (auto simp: isinstance_def issubclass_def)
  have 3: "(isinstance (ChecksumMismatchError ex ac msg) c \<and> \<not> isinstance (ValueError m) c)
        = (c = C_ChecksumMismatchError)"
    by (cases c) (auto simp: isinstance_def issubclass_def)
  have 4: "SRI rt v = Inl e \<longrightarrow> isinstance e C_ValueError"
    by (auto simp: isinstance_def issubclass_def dest!: SRI_error_class)
  have 5: "Platform v = Inl e \<longrightarrow> isinstance e C_ValueError"
    by (auto simp: isinstance_def issubclass_def dest!: Platform_error_class)
  have 6: "URI rt v = Inl e \<longrightarrow> isinstance e C_ValueError"
    by (auto simp: isinstance_def issubclass_def dest!: URI_error_class)
  from 1 2 3 4 5 6 show ?thesis by blast
qed

text \<open>
  A descriptor without a hyphen, a token without a slash and a URI without a scheme
  each raise a \<^verbatim>\<open>ValueError\<close>, which a handler for \<^verbatim>\<open>ValueError\<close> catches along
  with a mismatch.
\<close>

theorem checksum_mismatch_is_value_error_witness:
  "SRI (example_host []) ''sha256'' =
     Inl (ValueError ''not enough values to unpack (expected 2, got 1)'')
   \<and> Platform ''sha256'' = Inl (ValueError ''not enough values to unpack (expected 2, got 1)'')
   \<and> isinstance (ValueError ''not enough values to unpack (expected 2, got 1)'') C_ValueError
   \<and> isinstance (ChecksumMismatchError ''a'' ''b'' ''checksum mismatch'') C_ValueError
   \<and> \<not> isinstance (ValueError ''not enough values to unpack (expected 2, got 1)'')
         C_ChecksumMismatchError"
proof -
  let ?e = "ValueError ''not enough values to unpack (expected 2, got 1)''"
  have s: "SRI (example_host []) ''sha256'' = Inl ?e"
    by (simp add: SRI_def split_once_def)
  have p: "Platform ''sha256'' = Inl ?e"
    by (simp add: Platform_def Platform_parts_def split_once_def)
  have v: "isinstance ?e C_ValueError"
    by (simp add: isinstance_def issubclass_def)
  from checksum_mismatch_is_value_error
         [of "''not enough values to unpack (expected 2, got 1)''" "''a''" "''b''"
             "''checksum mismatch''" C_ChecksumMismatchError "example_host []" "''sha256''" ?e]
       s p v
  show ?thesis by simp
qed

subsection \<open>The host\<close>

lemma dict_getitem_None:
  "k \<notin> set (map fst m) \<Longrightarrow> dict_getitem m k = Inl (KeyError k)"
  by (simp add: dict_getitem_def map_of_eq_None_iff[THEN iffD2])

lemma dict_getitem_Some:
  "k \<in> set (map fst m) \<Longrightarrow> \<exists>v. dict_getitem m k = Inr v"
proof -
  assume "k \<in> set (map fst m)"
  then have "map_of m k \<noteq> None" by (simp add: map_of_eq_None_iff)
  then show ?thesis by (auto simp: dict_getitem_def)
qed

text \<open>
  \<^bold>\<open>C6\<close>, as amended. When the name of the operating system is not a key of its
  mapping, \<^verbatim>\<open>Platform.host\<close> raises the \<^verbatim>\<open>KeyError\<close> of the lookup, whose only
  argument is that name; when it is a key and the name of the machine is not, the
  argument is the name of the machine. The error does not list the accepted values.
\<close>

theorem Platform_host_unrecognized:
  "(system rt \<notin> set (map fst Platform_OS) \<longrightarrow>
      Platform_host rt = Inl (KeyError (system rt)))
   \<and> (system rt \<in> set (map fst Platform_OS) \<and> machine rt \<notin> set (map fst Platform_CPU) \<longrightarrow>
      Platform_host rt = Inl (KeyError (machine rt)))
   \<and> error_args (KeyError k) = [k]"
proof -
  have 1: "Platform_host rt = Inl (KeyError (system rt))"
    if "system rt \<notin> set (map fst Platform_OS)"
    using dict_getitem_None[OF that] by (simp add: Platform_host_def)
  have 2: "Platform_host rt = Inl (KeyError (machine rt))"
    if "system rt \<in> set (map fst Platform_OS)" "machine rt \<notin> set (map fst Platform_CPU)"
    using dict_getitem_Some[OF that(1)] dict_getitem_None[OF that(2)]
    by (auto simp: Platform_host_def)
  from 1 2 show ?thesis by simp
qed

text \<open>A Solaris host, and a Mac whose machine reports \<^verbatim>\<open>arm64\<close>.\<close>

theorem Platform_host_unrecognized_witness:
  "system ((example_host [])\<lparr>system := ''SunOS''\<rparr>) = ''SunOS''
   \<and> ''SunOS'' \<notin> set (map fst Platform_OS)
   \<and> Platform_host ((example_host [])\<lparr>system := ''SunOS''\<rparr>) = Inl (KeyError ''SunOS'')
   \<and> ''Darwin'' \<in> set (map fst Platform_OS) \<and> ''arm64'' \<notin> set (map fst Platform_CPU)
   \<and> Platform_host ((example_host [])\<lparr>system := ''Darwin'', machine := ''arm64''\<rparr>)
       = Inl (KeyError ''arm64'')"
proof -
  have a: "''SunOS'' \<notin> set (map fst Platform_OS)" by (simp add: Platform_OS_def)
  have b: "''Darwin'' \<in> set (map fst Platform_OS)" by (simp add: Platform_OS_def)
  have c: "''arm64'' \<notin> set (map fst Platform_CPU)" by (simp add: Platform_CPU_def)
  from a b c
    Platform_host_unrecognized[of "(example_host [])\<lparr>system := ''SunOS''\<rparr>"]
    Platform_host_unrecognized[of "(example_host [])\<lparr>system := ''Darwin'', machine := ''arm64''\<rparr>"]
  show ?thesis by simp
qed

text \<open>
  The claim as stated fails on the Mac: the error is \<^verbatim>\<open>KeyError('arm64')\<close>, and the
  list of the accepted names is no part of it, neither the keys nor the values of the
  mapping.
\<close>

theorem Platform_host_counterexample:
  "Platform_host ((example_host [])\<lparr>system := ''Darwin'', machine := ''arm64''\<rparr>)
     = Inl (KeyError ''arm64'')
   \<and> error_args (KeyError ''arm64'') = [''arm64'']
   \<and> \<not> str_contains ''arm64'' (join '','' (map fst Platform_CPU))
   \<and> \<not> str_contains ''arm64'' (join '','' (dict_values Platform_CPU))"
  by (simp add: Platform_host_def dict_getitem_def Platform_OS_def Platform_CPU_def
        example_host_def dict_values_def)

subsection \<open>The test vectors\<close>

lemma b64decode_shell: "b64decode shell_checksum = Inr shell_digest"
  by (simp add: shell_checksum_def shell_digest_def b64decode_def table_a2b_base64_def
        b64_pad_def Let_def)

lemma b64encode_shell: "ascii_text (b64encode shell_digest) = shell_checksum"
  by (simp add: shell_checksum_def shell_digest_def ascii_text_def b64_char_def
        b64_alphabet_def b64_pad_def char_of_def bit_Suc_0_iff)

lemma length_shell_digest: "length shell_digest = 32"
  by (simp add: shell_digest_def)

lemma b64decode_wrong: "b64decode wrong_checksum = Inr wrong_digest"
  by (simp add: wrong_checksum_def wrong_digest_def b64decode_def table_a2b_base64_def
        b64_pad_def Let_def)

lemma b64encode_wrong: "ascii_text (b64encode wrong_digest) = wrong_checksum"
  by (simp add: wrong_checksum_def wrong_digest_def ascii_text_def b64_char_def
        b64_alphabet_def b64_pad_def char_of_def bit_Suc_0_iff)

lemma length_wrong_digest: "length wrong_digest = 32"
  by (simp add: wrong_digest_def)

lemma b64decode_overwritten: "b64decode overwritten_checksum = Inr overwritten_digest"
  by (simp add: overwritten_checksum_def overwritten_digest_def b64decode_def table_a2b_base64_def
        b64_pad_def Let_def)

lemma b64encode_overwritten: "ascii_text (b64encode overwritten_digest) = overwritten_checksum"
  by (simp add: overwritten_checksum_def overwritten_digest_def ascii_text_def b64_char_def
        b64_alphabet_def b64_pad_def char_of_def bit_Suc_0_iff)

lemma length_overwritten_digest: "length overwritten_digest = 32"
  by (simp add: overwritten_digest_def)

lemma b64decode_empty: "b64decode empty_checksum = Inr empty_digest"
  by (simp add: empty_checksum_def empty_digest_def b64decode_def table_a2b_base64_def
        b64_pad_def Let_def)


lemma length_empty_digest: "length empty_digest = 32"
  by (simp add: empty_digest_def)

lemma b64decode_invalid_length: "b64decode invalid_length_checksum = Inr invalid_length_digest"
  by (simp add: invalid_length_checksum_def invalid_length_digest_def b64decode_def table_a2b_base64_def
        b64_pad_def Let_def)

lemma b64encode_invalid_length: "ascii_text (b64encode invalid_length_digest) = invalid_length_checksum"
  by (simp add: invalid_length_checksum_def invalid_length_digest_def ascii_text_def b64_char_def
        b64_alphabet_def b64_pad_def char_of_def bit_Suc_0_iff)

lemma length_invalid_length_digest: "length invalid_length_digest = 33"
  by (simp add: invalid_length_digest_def)

lemma replicate_numeral_unroll: "replicate (numeral k) x = x # replicate (pred_numeral k) x"
  by (simp add: numeral_eq_Suc)

lemmas sha256_defs = sha256_def sha256_pad_def be_bytes_def sha256_compress_def
  sha256_next_w_def sha256_K_def sha256_H0_def add32_def rotr32_def not32_def Ch_def Maj_def
  Sigma0_def Sigma1_def sigma0_def sigma1_def sha256_blocks.simps upt_rec
  replicate_numeral_unroll

lemma sha256_shellscript: "sha256 shellscript = shell_digest"
  by (simp add: sha256_defs shellscript_def bytes_of_def shell_digest_def)

lemma sha256_overwritten: "sha256 overwritten = overwritten_digest"
  by (simp add: sha256_defs overwritten_def bytes_of_def overwritten_digest_def)


lemma str_nat_33: "str_nat 33 = ''33''"
  by (simp add: str_nat.simps digit_char_def char_of_def bit_Suc_0_iff)

lemma str_nat_32: "str_nat 32 = ''32''"
  by (simp add: str_nat.simps digit_char_def char_of_def bit_Suc_0_iff)

subsection \<open>Parsing a descriptor: the checks\<close>

lemma SRI_Inr_parts:
  assumes "SRI rt v = Inr self"
  shows "sri_value self = v \<and> v = sri_algorithm self @ ''-'' @ sri_checksum self
         \<and> CHR ''-'' \<notin> set (sri_algorithm self)
         \<and> sri_algorithm self \<in> set (algorithms_available rt)
         \<and> (\<exists>d h. b64decode (sri_checksum self) = Inr d
                \<and> ascii_text (b64encode d) = sri_checksum self
                \<and> hashlib_new rt (sri_algorithm self) = Some h
                \<and> length d = digest_size h)"
proof -
  from assms obtain alg chk where sp: "split_once CHR ''-'' v = Inr (alg, chk)"
    by (auto simp: SRI_def split: sum.splits)
  from split_once_Inr[OF sp] have v: "v = alg @ ''-'' @ chk" and nh: "CHR ''-'' \<notin> set alg"
    by simp_all
  from assms sp show ?thesis
    unfolding v using nh
    by (auto simp: SRI_def new_hasher_def bytes_decode_b64 Let_def
             split: if_splits sum.splits option.splits)
qed

text \<open>
  \<^bold>\<open>C7\<close>, as amended. \<^verbatim>\<open>SRI.__init__\<close> splits its argument at the first hyphen and
  makes its checks in this order. It raises when the algorithm is not among the
  available ones; then when the rest cannot be decoded, or is not the base64 encoding
  of what it decodes to; and then, for a checksum that passed these checks, when the
  decoded bytes are not as many as the digest of the algorithm, with a message that
  names the length found and the length expected. Otherwise it returns the descriptor.
\<close>

theorem SRI_parse_checks:
  assumes "v = alg @ ''-'' @ chk" and "CHR ''-'' \<notin> set alg"
  shows
   "(alg \<notin> set (algorithms_available rt) \<longrightarrow>
       SRI rt v = Inl (ValueError (''`'' @ alg @ ''` is not available, choose one of: ''
                                   @ join '','' (algorithms_available rt) @ ''`'')))
    \<and> (alg \<in> set (algorithms_available rt) \<longrightarrow>
         (\<forall>e. b64decode chk = Inl e \<longrightarrow> SRI rt v = Inl e)
       \<and> (\<forall>d. b64decode chk = Inr d \<and> ascii_text (b64encode d) \<noteq> chk \<longrightarrow>
             SRI rt v = Inl (ValueError (''Invalid checksum string, ''
                                         @ ''the checksum string has to be encoded in base64.'')))
       \<and> (\<forall>d h. b64decode chk = Inr d \<and> ascii_text (b64encode d) = chk
                \<and> hashlib_new rt alg = Some h \<and> length d \<noteq> digest_size h \<longrightarrow>
             SRI rt v = Inl (ValueError (''Invalid checksum string length of ''
                                         @ str_nat (length d) @ '' for '' @ alg
                                         @ '', expected '' @ str_nat (digest_size h))))
       \<and> (\<forall>d h. b64decode chk = Inr d \<and> ascii_text (b64encode d) = chk
                \<and> hashlib_new rt alg = Some h \<and> length d = digest_size h \<longrightarrow>
             SRI rt v = Inr \<lparr>sri_value = v, sri_algorithm = alg, sri_checksum = chk\<rparr>))"
proof -
  have sp: "split_once CHR ''-'' v = Inr (alg, chk)"
    unfolding assms(1) using split_once_append[OF assms(2), of chk] by simp
  show ?thesis
    by (simp add: SRI_def sp bytes_decode_b64 new_hasher_def)
qed


text \<open>
  The checksum of 44 characters of the tests decodes to 33 bytes, and the message is
  the one the test expects; an algorithm that the host lacks and the checksum of the
  served script are the other two cases.
\<close>

theorem SRI_parse_checks_witness:
  "CHR ''-'' \<notin> set ''sha256''
   \<and> ''sha256'' \<in> set (algorithms_available (example_host []))
   \<and> hashlib_new (example_host []) ''sha256'' = Some sha256_alg
   \<and> digest_size sha256_alg = 32
   \<and> SRI (example_host []) (''sha256-'' @ invalid_length_checksum) =
       Inl (ValueError ''Invalid checksum string length of 33 for sha256, expected 32'')
   \<and> ''md5'' \<notin> set (algorithms_available (example_host []))
   \<and> SRI (example_host []) ''md5-1B2M2Y8AsgTpgAmY7PhCfg=='' =
       Inl (ValueError ''`md5` is not available, choose one of: sha256`'')
   \<and> SRI (example_host []) (''sha256-'' @ shell_checksum) =
       Inr \<lparr>sri_value = ''sha256-'' @ shell_checksum, sri_algorithm = ''sha256'',
            sri_checksum = shell_checksum\<rparr>"
proof -
  let ?rt = "example_host []"
  have a: "CHR ''-'' \<notin> set ''sha256''" by simp
  have b: "''sha256'' \<in> set (algorithms_available ?rt)"
    by (simp add: example_host_def)
  have c: "hashlib_new ?rt ''sha256'' = Some sha256_alg"
    by (simp add: example_host_def)
  have d: "digest_size sha256_alg = 32" by (simp add: sha256_alg_def)
  have e: "''md5'' \<notin> set (algorithms_available ?rt)"
    by (simp add: example_host_def)
  have f: "join '','' (algorithms_available ?rt) = ''sha256''"
    by (simp add: example_host_def)
  note T = SRI_parse_checks[of "''sha256-'' @ invalid_length_checksum" "''sha256''"
             invalid_length_checksum ?rt, OF _ a]
  have "SRI ?rt (''sha256-'' @ invalid_length_checksum) =
       Inl (ValueError (''Invalid checksum string length of ''
            @ str_nat (length invalid_length_digest) @ '' for ''
            @ ''sha256'' @ '', expected '' @ str_nat (digest_size sha256_alg)))"
    using T b b64decode_invalid_length b64encode_invalid_length c d
          length_invalid_length_digest
    by simp
  then have g: "SRI ?rt (''sha256-'' @ invalid_length_checksum) =
       Inl (ValueError ''Invalid checksum string length of 33 for sha256, expected 32'')"
    by (simp add: length_invalid_length_digest d str_nat_33 str_nat_32)
  from SRI_parse_checks[of "''md5-1B2M2Y8AsgTpgAmY7PhCfg==''" "''md5''"
         "''1B2M2Y8AsgTpgAmY7PhCfg==''" ?rt] e f
  have h: "SRI ?rt ''md5-1B2M2Y8AsgTpgAmY7PhCfg=='' =
       Inl (ValueError ''`md5` is not available, choose one of: sha256`'')"
    by simp
  note U = SRI_parse_checks[of "''sha256-'' @ shell_checksum" "''sha256''"
             shell_checksum ?rt, OF _ a]
  have i: "SRI ?rt (''sha256-'' @ shell_checksum) =
       Inr \<lparr>sri_value = ''sha256-'' @ shell_checksum, sri_algorithm = ''sha256'',
            sri_checksum = shell_checksum\<rparr>"
    using U b b64decode_shell b64encode_shell c d length_shell_digest by simp
  from a b c d e g h i show ?thesis by simp
qed

text \<open>
  The claim as stated fails where an earlier check raises first: \<^verbatim>\<open>QR==\<close> decodes to
  one byte, not 32, but it is not the encoding of that byte (\<^verbatim>\<open>QQ==\<close> is), so the
  error is the one about base64 and names no length.
\<close>

theorem SRI_length_counterexample:
  "''sha256'' \<in> set (algorithms_available (example_host []))
   \<and> hashlib_new (example_host []) ''sha256'' = Some sha256_alg
   \<and> b64decode ''QR=='' = Inr [65]
   \<and> length [65 :: byte] \<noteq> digest_size sha256_alg
   \<and> SRI (example_host []) ''sha256-QR=='' =
       Inl (ValueError (''Invalid checksum string, ''
                        @ ''the checksum string has to be encoded in base64.''))
   \<and> \<not> str_contains (''Invalid checksum string, ''
                        @ ''the checksum string has to be encoded in base64.'') ''32''"
proof -
  define d :: bytes where "d = [65]"
  have a: "''sha256'' \<in> set (algorithms_available (example_host []))"
    by (simp add: example_host_def)
  have b: "hashlib_new (example_host []) ''sha256'' = Some sha256_alg"
    by (simp add: example_host_def)
  have c: "b64decode ''QR=='' = Inr d"
    by (simp add: d_def b64decode_def table_a2b_base64_def b64_pad_def Let_def)
  have l: "length d \<noteq> digest_size sha256_alg"
    by (simp add: d_def sha256_alg_def)
  have e: "ascii_text (b64encode d) = ''QQ==''"
    by (simp add: d_def ascii_text_def b64_char_def b64_alphabet_def b64_pad_def char_of_def
          bit_Suc_0_iff)
  have sp: "split_once CHR ''-'' ''sha256-QR=='' = Inr (''sha256'', ''QR=='')"
    by (simp add: split_once_def)
  have f: "SRI (example_host []) ''sha256-QR=='' =
       Inl (ValueError (''Invalid checksum string, ''
                        @ ''the checksum string has to be encoded in base64.''))"
    using a by (simp add: SRI_def sp c bytes_decode_b64 e)
  have g: "\<not> str_contains (''Invalid checksum string, ''
                        @ ''the checksum string has to be encoded in base64.'') ''32''"
    by simp
  from a b c l f g show ?thesis unfolding d_def by blast
qed

subsection \<open>The verify transform\<close>

lemma check_loop_chunks:
  "0 < chunk \<Longrightarrow> b \<in> set (fst (check_loop self chunk h io)) \<Longrightarrow>
   b \<noteq> [] \<and> length b \<le> chunk"
proof (induction self chunk h io arbitrary: b rule: check_loop.induct)
  case (1 self chunk h io)
  show ?case
  proof (cases "take chunk io = []")
    case True
    with 1(3) show ?thesis by (simp add: check_loop_end)
  next
    case False
    from 1(3) have "b = take chunk io \<or>
        b \<in> set (fst (check_loop self chunk (hasher_update h (take chunk io)) (drop chunk io)))"
      by (simp add: check_loop_yield[OF False])
    then show ?thesis
    proof
      assume "b = take chunk io"
      with False show ?thesis by simp
    next
      assume m: "b \<in> set (fst (check_loop self chunk (hasher_update h (take chunk io)) (drop chunk io)))"
      show ?thesis by (rule 1(1)[OF check_next_yield[OF False] 1(2) m])
    qed
  qed
qed

lemma check_eq:
  "hashlib_new rt (sri_algorithm self) = Some alg \<Longrightarrow>
   check rt self chunk io = check_loop self chunk \<lparr>hasher_alg = alg, hasher_fed = []\<rparr> io"
  by (simp add: check_def new_hasher_def)

lemma check_outcome:
  assumes "hashlib_new rt (sri_algorithm self) = Some alg" and "0 < chunk"
  shows "snd (check rt self chunk io) =
           final_outcome self \<lparr>hasher_alg = alg, hasher_fed = io\<rparr>"
  by (simp add: check_eq[OF assms(1)] check_loop_outcome[OF assms(2)])

lemma final_outcome_digest:
  "digest_fn alg io = Some d \<Longrightarrow>
   final_outcome self \<lparr>hasher_alg = alg, hasher_fed = io\<rparr> =
     (if ascii_text (b64encode d) = sri_checksum self then None
      else Some (ChecksumMismatchError (sri_checksum self) (ascii_text (b64encode d))
                   ''checksum mismatch''))"
  by (simp add: final_outcome_def hasher_digest_def)


lemma b64encode_length: "length (b64encode d) = 4 * ((length d + 2) div 3)"
proof (induction d rule: b64encode.induct)
  case (4 a b c rest)
  then show ?case by simp presburger
qed simp_all

lemma SRI_example:
  assumes "b64decode chk = Inr d" and "ascii_text (b64encode d) = chk" and "length d = 32"
  shows "SRI (example_host body) (''sha256-'' @ chk) =
           Inr \<lparr>sri_value = ''sha256-'' @ chk, sri_algorithm = ''sha256'', sri_checksum = chk\<rparr>"
proof -
  have a: "CHR ''-'' \<notin> set ''sha256''" by simp
  have b: "''sha256'' \<in> set (algorithms_available (example_host body))"
    by (simp add: example_host_def)
  have c: "hashlib_new (example_host body) ''sha256'' = Some sha256_alg"
    by (simp add: example_host_def)
  have d: "length d = digest_size sha256_alg" by (simp add: sha256_alg_def assms(3))
  from SRI_success[OF a b assms(1) assms(2) c d] show ?thesis by simp
qed

text \<open>
  \<^bold>\<open>C1\<close>. For a parsed descriptor and a positive chunk size, \<^verbatim>\<open>SRI.check\<close>
  yields the bytes of the source unchanged: the chunks yielded, put together, are the
  source, and each is a non-empty read of at most \<open>chunk\<close> bytes. While bytes are left
  the generator only yields what it has just read; it returns or raises, and so
  compares the digest, only when the source is exhausted. When the stored checksum is
  the encoded digest of the source, the iteration ends without an exception.
\<close>

theorem check_passthrough:
  assumes "SRI rt v = Inr self" and "0 < chunk"
  shows "concat (fst (check rt self chunk src)) = src
     \<and> (\<forall>b \<in> set (fst (check rt self chunk src)). b \<noteq> [] \<and> length b \<le> chunk)
     \<and> (\<forall>h io. io \<noteq> [] \<longrightarrow>
           check_next self chunk h io =
             Yield (take chunk io) (hasher_update h (take chunk io)) (drop chunk io))
     \<and> (\<forall>h io e. check_next self chunk h io = Raise e \<or> check_next self chunk h io = Return
           \<longrightarrow> io = [])
     \<and> (\<forall>alg d. hashlib_new rt (sri_algorithm self) = Some alg \<and> digest_fn alg src = Some d
                 \<and> ascii_text (b64encode d) = sri_checksum self
           \<longrightarrow> snd (check rt self chunk src) = None)"
proof -
  from SRI_Inr_hasher[OF assms(1)] obtain alg0
    where alg0: "hashlib_new rt (sri_algorithm self) = Some alg0" by blast
  have 1: "concat (fst (check rt self chunk src)) = src"
    by (simp add: check_eq[OF alg0] check_loop_concat[OF assms(2)])
  have 2: "\<forall>b \<in> set (fst (check rt self chunk src)). b \<noteq> [] \<and> length b \<le> chunk"
    using check_loop_chunks[OF assms(2)] by (simp add: check_eq[OF alg0])
  have step: "check_next self chunk h io =
             Yield (take chunk io) (hasher_update h (take chunk io)) (drop chunk io)"
    if "io \<noteq> []" for h io
    using that assms(2) by (simp add: check_next_yield take_empty_iff)
  then have 3: "\<forall>h io. io \<noteq> [] \<longrightarrow>
           check_next self chunk h io =
             Yield (take chunk io) (hasher_update h (take chunk io)) (drop chunk io)"
    by simp
  have 4: "\<forall>h io e. check_next self chunk h io = Raise e \<or> check_next self chunk h io = Return
           \<longrightarrow> io = []"
  proof (intro allI impI)
    fix h io e
    assume fin: "check_next self chunk h io = Raise e \<or> check_next self chunk h io = Return"
    show "io = []"
    proof (rule ccontr)
      assume "io \<noteq> []"
      from step[OF this, of h] fin show False by simp
    qed
  qed
  have 5: "\<forall>alg d. hashlib_new rt (sri_algorithm self) = Some alg \<and> digest_fn alg src = Some d
                 \<and> ascii_text (b64encode d) = sri_checksum self
           \<longrightarrow> snd (check rt self chunk src) = None"
  proof (intro allI impI)
    fix alg d
    assume h: "hashlib_new rt (sri_algorithm self) = Some alg \<and> digest_fn alg src = Some d
                 \<and> ascii_text (b64encode d) = sri_checksum self"
    then have a: "hashlib_new rt (sri_algorithm self) = Some alg" by simp
    from h show "snd (check rt self chunk src) = None"
      by (simp add: check_outcome[OF a assms(2)] final_outcome_digest)
  qed
  show ?thesis by (intro conjI; fact)
qed

text \<open>The script of the tests, checked against its own checksum.\<close>

theorem check_passthrough_witness:
  "SRI (example_host []) (''sha256-'' @ shell_checksum) =
     Inr \<lparr>sri_value = ''sha256-'' @ shell_checksum, sri_algorithm = ''sha256'',
          sri_checksum = shell_checksum\<rparr>
   \<and> 0 < default_chunk
   \<and> hashlib_new (example_host []) ''sha256'' = Some sha256_alg
   \<and> digest_fn sha256_alg shellscript = Some shell_digest
   \<and> ascii_text (b64encode shell_digest) = shell_checksum
   \<and> concat (fst (check (example_host [])
         \<lparr>sri_value = ''sha256-'' @ shell_checksum, sri_algorithm = ''sha256'',
          sri_checksum = shell_checksum\<rparr> default_chunk shellscript)) = shellscript
   \<and> snd (check (example_host [])
         \<lparr>sri_value = ''sha256-'' @ shell_checksum, sri_algorithm = ''sha256'',
          sri_checksum = shell_checksum\<rparr> default_chunk shellscript) = None"
proof -
  let ?rt = "example_host []"
  let ?S = "\<lparr>sri_value = ''sha256-'' @ shell_checksum, sri_algorithm = ''sha256'',
             sri_checksum = shell_checksum\<rparr>"
  have s: "SRI ?rt (''sha256-'' @ shell_checksum) = Inr ?S"
    by (rule SRI_example[OF b64decode_shell b64encode_shell length_shell_digest])
  have p: "0 < default_chunk" by (simp add: default_chunk_def)
  have hnew: "hashlib_new ?rt (sri_algorithm ?S) = Some sha256_alg"
    by (simp add: example_host_def)
  have dig: "digest_fn sha256_alg shellscript = Some shell_digest"
    by (simp add: sha256_alg_def sha256_shellscript)
  have enc: "ascii_text (b64encode shell_digest) = sri_checksum ?S"
    by (simp add: b64encode_shell)
  note T = check_passthrough[OF s p, of shellscript]
  from T have c1: "concat (fst (check ?rt ?S default_chunk shellscript)) = shellscript"
    by (rule conjunct1)
  note c5 = T[THEN conjunct2, THEN conjunct2, THEN conjunct2, THEN conjunct2, rule_format,
              OF conjI[OF hnew conjI[OF dig enc]]]
  from s p hnew dig enc c1 c5 show ?thesis by simp
qed

text \<open>
  \<^bold>\<open>C2\<close>. At the end of the stream the digest of the bytes read is encoded in
  base64, as text of four characters for every three bytes and nothing more, and compared
  with the stored checksum, which is the part of the descriptor after its first hyphen.
  When they differ the generator raises a \<^verbatim>\<open>ChecksumMismatchError\<close> whose
  \<^verbatim>\<open>expected\<close> is the stored checksum and whose \<^verbatim>\<open>actual\<close> is that encoding. No
  failure of parsing a descriptor, a platform token or a URI is an instance of this class.
\<close>

theorem check_digest_comparison:
  assumes "SRI rt v = Inr self" and "0 < chunk"
    and "hashlib_new rt (sri_algorithm self) = Some alg" and "digest_fn alg src = Some d"
  shows "snd (check rt self chunk src) =
           (if ascii_text (b64encode d) = sri_checksum self then None
            else Some (ChecksumMismatchError (sri_checksum self) (ascii_text (b64encode d))
                         ''checksum mismatch''))
     \<and> (\<forall>e. snd (check rt self chunk src) = Some e \<longrightarrow>
           isinstance e C_ChecksumMismatchError
           \<and> expected e = sri_checksum self
           \<and> actual e = ascii_text (b64encode d))
     \<and> v = sri_algorithm self @ ''-'' @ sri_checksum self
     \<and> length (ascii_text (b64encode d)) = 4 * ((length d + 2) div 3)
     \<and> (\<forall>v' e'. SRI rt v' = Inl e' \<longrightarrow> \<not> isinstance e' C_ChecksumMismatchError)
     \<and> (\<forall>v' e'. Platform v' = Inl e' \<longrightarrow> \<not> isinstance e' C_ChecksumMismatchError)
     \<and> (\<forall>v' e'. URI rt v' = Inl e' \<longrightarrow> \<not> isinstance e' C_ChecksumMismatchError)"
proof -
  have 1: "snd (check rt self chunk src) =
           (if ascii_text (b64encode d) = sri_checksum self then None
            else Some (ChecksumMismatchError (sri_checksum self) (ascii_text (b64encode d))
                         ''checksum mismatch''))"
    by (simp add: check_outcome[OF assms(3) assms(2)] final_outcome_digest[OF assms(4)])
  have 2: "\<forall>e. snd (check rt self chunk src) = Some e \<longrightarrow>
           isinstance e C_ChecksumMismatchError
           \<and> expected e = sri_checksum self
           \<and> actual e = ascii_text (b64encode d)"
    unfolding 1 by (auto simp: isinstance_def issubclass_def)
  have 3: "v = sri_algorithm self @ ''-'' @ sri_checksum self"
    using SRI_Inr_parts[OF assms(1)] by simp
  have 4: "length (ascii_text (b64encode d)) = 4 * ((length d + 2) div 3)"
    by (simp add: ascii_text_def b64encode_length)
  have 5: "\<forall>v' e'. SRI rt v' = Inl e' \<longrightarrow> \<not> isinstance e' C_ChecksumMismatchError"
    by (auto simp: isinstance_def issubclass_def dest!: SRI_error_class)
  have 6: "\<forall>v' e'. Platform v' = Inl e' \<longrightarrow> \<not> isinstance e' C_ChecksumMismatchError"
    by (auto simp: isinstance_def issubclass_def dest!: Platform_error_class)
  have 7: "\<forall>v' e'. URI rt v' = Inl e' \<longrightarrow> \<not> isinstance e' C_ChecksumMismatchError"
    by (auto simp: isinstance_def issubclass_def dest!: URI_error_class)
  show ?thesis by (intro conjI; fact)
qed

text \<open>
  The script of the tests against the checksum of the mismatching manifest: the
  \<^verbatim>\<open>actual\<close> of the error is the checksum of the script, as the tests assert.
\<close>

theorem check_digest_comparison_witness:
  "SRI (example_host []) (''sha256-'' @ wrong_checksum) =
     Inr \<lparr>sri_value = ''sha256-'' @ wrong_checksum, sri_algorithm = ''sha256'',
          sri_checksum = wrong_checksum\<rparr>
   \<and> 0 < default_chunk
   \<and> hashlib_new (example_host []) ''sha256'' = Some sha256_alg
   \<and> digest_fn sha256_alg shellscript = Some shell_digest
   \<and> ascii_text (b64encode shell_digest) = shell_checksum
   \<and> snd (check (example_host [])
         \<lparr>sri_value = ''sha256-'' @ wrong_checksum, sri_algorithm = ''sha256'',
          sri_checksum = wrong_checksum\<rparr> default_chunk shellscript) =
       Some (ChecksumMismatchError wrong_checksum shell_checksum ''checksum mismatch'')
   \<and> length shell_checksum = 44"
proof -
  let ?rt = "example_host []"
  let ?S = "\<lparr>sri_value = ''sha256-'' @ wrong_checksum, sri_algorithm = ''sha256'',
             sri_checksum = wrong_checksum\<rparr>"
  have s: "SRI ?rt (''sha256-'' @ wrong_checksum) = Inr ?S"
    by (rule SRI_example[OF b64decode_wrong b64encode_wrong length_wrong_digest])
  have p: "0 < default_chunk" by (simp add: default_chunk_def)
  have hnew: "hashlib_new ?rt (sri_algorithm ?S) = Some sha256_alg"
    by (simp add: example_host_def)
  have dig: "digest_fn sha256_alg shellscript = Some shell_digest"
    by (simp add: sha256_alg_def sha256_shellscript)
  have ne: "shell_checksum \<noteq> wrong_checksum"
    by (simp add: shell_checksum_def wrong_checksum_def)
  have len: "length shell_checksum = 44" by (simp add: shell_checksum_def)
  note T = check_digest_comparison[OF s p hnew dig]
  from T[THEN conjunct1] ne
  have r: "snd (check ?rt ?S default_chunk shellscript) =
       Some (ChecksumMismatchError wrong_checksum shell_checksum ''checksum mismatch'')"
    by (simp add: b64encode_shell)
  from s p hnew dig r len show ?thesis by (simp add: b64encode_shell)
qed

subsection \<open>Writing the download\<close>

lemma files_fp_write:
  "files (fp_write fn buf w) p =
     (if p = fn then map_option (\<lambda>f. f\<lparr>file_content := file_content f @ buf\<rparr>) (files w fn)
      else files w p)"
  by (simp add: fp_write_def)

lemma dirs_fp_write: "dirs (fp_write fn buf w) = dirs w"
  by (simp add: fp_write_def)

lemma fp_write_Nil: "fp_write fn [] w = w"
proof -
  have "map_option (\<lambda>f. f\<lparr>file_content := file_content f @ []\<rparr>) (files w fn) = files w fn"
    by (cases "files w fn") simp_all
  then show ?thesis by (simp add: fp_write_def)
qed

lemma fp_write_fp_write: "fp_write fn b (fp_write fn a w) = fp_write fn (a @ b) w"
proof -
  have "map_option (\<lambda>f. f\<lparr>file_content := file_content f @ b\<rparr>)
          (map_option (\<lambda>f. f\<lparr>file_content := file_content f @ a\<rparr>) (files w fn))
        = map_option (\<lambda>f. f\<lparr>file_content := file_content f @ a @ b\<rparr>) (files w fn)"
    by (cases "files w fn") simp_all
  then show ?thesis by (simp add: fp_write_def)
qed

lemma download_loop_yield:
  "take chunk io \<noteq> [] \<Longrightarrow>
   download_loop self chunk h io fn w =
     download_loop self chunk (hasher_update h (take chunk io)) (drop chunk io) fn
       (fp_write fn (take chunk io) w)"
  by (subst download_loop.simps) (simp add: check_next_yield)

lemma download_loop_end:
  "take chunk io = [] \<Longrightarrow> download_loop self chunk h io fn w = (final_outcome self h, w)"
  by (subst download_loop.simps) (simp add: check_next_end final_outcome_def split: sum.splits)

text \<open>The loop of the download writes the whole body, whatever the comparison gives.\<close>

lemma download_loop_eq:
  "0 < chunk \<Longrightarrow>
   download_loop self chunk h io fn w =
     (final_outcome self (h\<lparr>hasher_fed := hasher_fed h @ io\<rparr>), fp_write fn io w)"
proof (induction self chunk h io fn w rule: download_loop.induct)
  case (1 self chunk h io fn w)
  show ?case
  proof (cases "take chunk io = []")
    case True
    with 1(2) show ?thesis by (simp add: download_loop_end take_empty_iff fp_write_Nil)
  next
    case False
    have "download_loop self chunk (hasher_update h (take chunk io)) (drop chunk io) fn
            (fp_write fn (take chunk io) w) =
          (final_outcome self ((hasher_update h (take chunk io))
              \<lparr>hasher_fed := hasher_fed (hasher_update h (take chunk io)) @ drop chunk io\<rparr>),
           fp_write fn (drop chunk io) (fp_write fn (take chunk io) w))"
      by (rule 1(1)[OF check_next_yield[OF False] 1(2)])
    then show ?thesis
      by (simp add: download_loop_yield[OF False] hasher_update_def fp_write_fp_write)
  qed
qed

lemma download_loop_eq_check:
  "0 < chunk \<Longrightarrow>
   download_loop self chunk h io fn w = (snd (check_loop self chunk h io), fp_write fn io w)"
  by (simp add: download_loop_eq check_loop_outcome)

lemma download_eq:
  assumes "urlopen rt (uri_value u) = Inr body" and "fn \<notin> dirs w"
    and "hashlib_new rt (sri_algorithm self) = Some alg"
  shows "download rt u self fn w =
    (case final_outcome self \<lparr>hasher_alg = alg, hasher_fed = body\<rparr> of
       Some e \<Rightarrow>
         (Inl e, w\<lparr>files := (files w)(fn \<mapsto>
                     \<lparr>file_content = body, file_mode = opened_mode rt w fn\<rparr>)\<rparr>)
     | None \<Rightarrow>
         (Inr (), w\<lparr>files := (files w)(fn \<mapsto>
                     \<lparr>file_content = body, file_mode = S_IRUSR OR S_IXUSR\<rparr>)\<rparr>))"
proof -
  have pos: "0 < default_chunk" by (simp add: default_chunk_def)
  let ?w1 = "w\<lparr>files := (files w)(fn \<mapsto> \<lparr>file_content = [], file_mode = opened_mode rt w fn\<rparr>)\<rparr>"
  let ?w2 = "w\<lparr>files := (files w)(fn \<mapsto> \<lparr>file_content = body, file_mode = opened_mode rt w fn\<rparr>)\<rparr>"
  have ow: "open_write rt fn w = Inr ?w1"
    using assms(2) by (simp add: open_write_def)
  have nh: "new_hasher rt (sri_algorithm self) = Inr \<lparr>hasher_alg = alg, hasher_fed = []\<rparr>"
    using assms(3) by (simp add: new_hasher_def)
  have fw: "fp_write fn body ?w1 = ?w2"
    by (simp add: fp_write_def)
  have dl: "download_loop self default_chunk \<lparr>hasher_alg = alg, hasher_fed = []\<rparr> body fn ?w1
             = (final_outcome self \<lparr>hasher_alg = alg, hasher_fed = body\<rparr>, ?w2)"
    by (simp add: download_loop_eq[OF pos] fw)
  have ch: "chmod fn (S_IRUSR OR S_IXUSR) ?w2 =
              Inr (w\<lparr>files := (files w)(fn \<mapsto>
                     \<lparr>file_content = body, file_mode = S_IRUSR OR S_IXUSR\<rparr>)\<rparr>)"
    by (simp add: chmod_def)
  show ?thesis
    by (simp add: download_def assms(1) ow nh dl ch split: option.splits)
qed

lemma download_dir:
  "urlopen rt (uri_value u) = Inr body \<Longrightarrow> fn \<in> dirs w \<Longrightarrow>
   download rt u self fn w = (Inl (IsADirectoryError fn), w)"
  by (simp add: download_def open_write_def)

lemma download_no_hasher:
  "urlopen rt (uri_value u) = Inr body \<Longrightarrow> fn \<notin> dirs w \<Longrightarrow>
   hashlib_new rt (sri_algorithm self) = None \<Longrightarrow>
   fst (download rt u self fn w) = Inl (ValueError (''unsupported hash type '' @ sri_algorithm self))"
  by (simp add: download_def open_write_def new_hasher_def)

lemma download_urlerror:
  "urlopen rt (uri_value u) = Inl reason \<Longrightarrow>
   download rt u self fn w = (Inl (URLError reason), w)"
  by (simp add: download_def)

text \<open>A download that returns has written the body and set the mode.\<close>

lemma download_ok:
  assumes "download rt u self fn w = (Inr (), w')"
  shows "\<exists>body alg. urlopen rt (uri_value u) = Inr body
           \<and> hashlib_new rt (sri_algorithm self) = Some alg
           \<and> final_outcome self \<lparr>hasher_alg = alg, hasher_fed = body\<rparr> = None
           \<and> w' = w\<lparr>files := (files w)(fn \<mapsto>
                     \<lparr>file_content = body, file_mode = S_IRUSR OR S_IXUSR\<rparr>)\<rparr>"
proof (cases "urlopen rt (uri_value u)")
  case (Inl reason)
  from download_urlerror[OF this, of self fn w] assms show ?thesis by simp
next
  case (Inr body)
  show ?thesis
  proof (cases "fn \<in> dirs w")
    case True
    from download_dir[OF Inr True, of self] assms show ?thesis by simp
  next
    case False
    show ?thesis
    proof (cases "hashlib_new rt (sri_algorithm self)")
      case None
      from download_no_hasher[OF Inr False None] assms show ?thesis by simp
    next
      case (Some alg)
      note eq = download_eq[OF Inr False Some]
      show ?thesis
      proof (cases "final_outcome self \<lparr>hasher_alg = alg, hasher_fed = body\<rparr>")
        case None
        with eq assms have "w' = w\<lparr>files := (files w)(fn \<mapsto>
                     \<lparr>file_content = body, file_mode = S_IRUSR OR S_IXUSR\<rparr>)\<rparr>"
          by simp
        with Inr Some None show ?thesis by blast
      next
        case (Some e)
        with eq assms show ?thesis by simp
      qed
    qed
  qed
qed



subsection \<open>Installing an entry\<close>

lemma mode_0o500:
  "(S_IRUSR OR S_IXUSR) = (0x140 :: mode)
   \<and> (S_IRUSR OR S_IXUSR) AND (S_IWUSR OR S_IRWXG OR S_IRWXO) = 0"
  by (simp add: S_IRUSR_def S_IXUSR_def S_IWUSR_def S_IRWXG_def S_IRWXO_def)

lemma files_mkdir: "mkdir path w = Inr w1 \<Longrightarrow> files w1 = files w"
  by (auto simp: mkdir_def split: if_splits)


lemma Metadata_parts_error_class: "Metadata_parts v = Inl e \<Longrightarrow> class_of e = C_ValueError"
  by (auto simp: Metadata_parts_def split: list.splits if_splits)

lemma Metadata_platform_error_class:
  "Metadata_platform v = Inl e \<Longrightarrow> class_of e = C_ValueError"
  by (auto simp: Metadata_platform_def split: sum.splits prod.splits
           dest: Metadata_parts_error_class Platform_error_class)




lemma install_entry_ok:
  assumes "install_entry rt prefix version dep w = (Inr (), w')"
  shows "\<exists>w1 fname u s w2 w3.
      mkdir (environment_dir rt prefix ENVIRONMENT_DIR version) w = Inr w1
    \<and> Metadata_filename dep = Inr fname \<and> Metadata_uri rt dep = Inr u
    \<and> Metadata_sri rt dep = Inr s
    \<and> download rt u s (joinpath rt (environment_dir rt prefix ENVIRONMENT_DIR version) fname) w1
        = (Inr (), w2)
    \<and> open_write rt (joinpath rt (environment_dir rt prefix ENVIRONMENT_DIR version)
                        ''health.srisum'') w2 = Inr w3
    \<and> w' = fp_write (joinpath rt (environment_dir rt prefix ENVIRONMENT_DIR version)
                        ''health.srisum'')
               (text_encode rt (sri_value s @ ''  '' @ path_str rt fname @ ''\<newline>'')) w3"
  using assms
  by (simp add: install_entry_def Let_def split: sum.splits prod.splits)


lemma install_loop_skip:
  "(\<And>d. d \<in> set pre \<Longrightarrow> \<exists>p. Metadata_platform d = Inr p \<and> \<not> platform_eq host p) \<Longrightarrow>
   install_loop rt prefix version host alldeps (pre @ rest) w =
   install_loop rt prefix version host alldeps rest w"
proof (induction pre)
  case Nil
  show ?case by simp
next
  case (Cons d pre)
  from Cons.prems[of d] obtain p where p: "Metadata_platform d = Inr p" "\<not> platform_eq host p"
    by auto
  have "install_loop rt prefix version host alldeps (pre @ rest) w =
        install_loop rt prefix version host alldeps rest w"
    by (rule Cons.IH) (simp add: Cons.prems)
  with p show ?case by simp
qed

lemma install_loop_inv:
  "install_loop rt prefix version host alldeps deps w = (r, w') \<Longrightarrow>
     (\<exists>dep p. dep \<in> set deps \<and> Metadata_platform dep = Inr p \<and> platform_eq host p
         \<and> install_entry rt prefix version dep w = (r, w'))
     \<or> (\<exists>e. r = Inl e \<and> (class_of e = C_KeyError \<or> class_of e = C_ValueError))"
proof (induction deps)
  case Nil
  then show ?case by auto
next
  case (Cons d deps)
  show ?case
  proof (cases "Metadata_platform d")
    case (Inl e)
    with Cons.prems Metadata_platform_error_class[OF Inl] show ?thesis by auto
  next
    case (Inr p)
    show ?thesis
    proof (cases "platform_eq host p")
      case True
      with Cons.prems Inr have "install_entry rt prefix version d w = (r, w')" by simp
      with Inr True show ?thesis by auto
    next
      case False
      with Cons.prems Inr
      have "install_loop rt prefix version host alldeps deps w = (r, w')" by simp
      from Cons.IH[OF this] show ?thesis by auto
    qed
  qed
qed

lemma install_environment_inv:
  assumes "install_environment rt prefix version deps w = (r, w')"
  shows "(\<exists>dep. dep \<in> set deps \<and> install_entry rt prefix version dep w = (r, w'))
     \<or> (\<exists>e. r = Inl e \<and> (class_of e = C_KeyError \<or> class_of e = C_ValueError))"
proof (cases "Platform_host rt")
  case (Inl e)
  then have "class_of e = C_KeyError \<or> class_of e = C_ValueError"
    by (auto simp: Platform_host_def dict_getitem_def split: option.splits sum.splits
             dest: Platform_error_class)
  with assms Inl show ?thesis by (auto simp: install_environment_def)
next
  case (Inr host)
  with assms have "install_loop rt prefix version host deps deps w = (r, w')"
    by (simp add: install_environment_def)
  from install_loop_inv[OF this] show ?thesis by blast
qed

lemma install_environment_select:
  assumes "Platform_host rt = Inr host"
    and "\<And>d. d \<in> set pre \<Longrightarrow> \<exists>p. Metadata_platform d = Inr p \<and> \<not> platform_eq host p"
    and "Metadata_platform dep = Inr p" and "platform_eq host p"
  shows "install_environment rt prefix version (pre @ dep # post) w =
         install_entry rt prefix version dep w"
proof -
  have "install_loop rt prefix version host (pre @ dep # post) (pre @ dep # post) w =
        install_loop rt prefix version host (pre @ dep # post) (dep # post) w"
    by (rule install_loop_skip) (rule assms(2))
  with assms(1,3,4) show ?thesis by (simp add: install_environment_def)
qed




lemma install_entry_ok_eq:
  assumes "mkdir (environment_dir rt prefix ENVIRONMENT_DIR version) w = Inr w1"
    and "Metadata_filename dep = Inr fname" and "Metadata_uri rt dep = Inr u"
    and "Metadata_sri rt dep = Inr s"
    and "urlopen rt (uri_value u) = Inr body"
    and "joinpath rt (environment_dir rt prefix ENVIRONMENT_DIR version) fname \<notin> dirs w1"
    and "hashlib_new rt (sri_algorithm s) = Some alg"
    and "final_outcome s \<lparr>hasher_alg = alg, hasher_fed = body\<rparr> = None"
    and "joinpath rt (environment_dir rt prefix ENVIRONMENT_DIR version) ''health.srisum''
           \<notin> dirs w1"
    and "joinpath rt (environment_dir rt prefix ENVIRONMENT_DIR version) ''health.srisum''
           \<noteq> joinpath rt (environment_dir rt prefix ENVIRONMENT_DIR version) fname"
  shows "install_entry rt prefix version dep w =
     (Inr (), w1\<lparr>files := (files w1)
        (joinpath rt (environment_dir rt prefix ENVIRONMENT_DIR version) fname \<mapsto>
           \<lparr>file_content = body, file_mode = S_IRUSR OR S_IXUSR\<rparr>,
         joinpath rt (environment_dir rt prefix ENVIRONMENT_DIR version) ''health.srisum'' \<mapsto>
           \<lparr>file_content =
              text_encode rt (sri_value s @ ''  '' @ path_str rt fname @ ''\<newline>''),
            file_mode = opened_mode rt w
              (joinpath rt (environment_dir rt prefix ENVIRONMENT_DIR version)
                 ''health.srisum'')\<rparr>)\<rparr>)"
proof -
  note d = download_eq[OF assms(5) assms(6) assms(7)]
  show ?thesis
    using assms(9,10)
    by (simp add: install_entry_def Let_def assms(1,2,3,4,8) d open_write_def fp_write_def
          opened_mode_def files_mkdir[OF assms(1)])
qed

subsection \<open>The example host at work\<close>

lemma parts_linux_entry:
  "Metadata_parts linux_entry =
     Inr (''linux/amd64'', ''sha256-'' @ shell_checksum, ''http://127.0.0.1:5555'', ''test.bat'')"
  by (simp add: linux_entry_def Metadata_parts_def splitlines_def is_linebreak_def
        shell_checksum_def)




lemma platform_windows_wrong_entry:
  "Metadata_platform windows_wrong_entry = Inr (MkPlatform ''windows/amd64'')"
  by (simp add: windows_wrong_entry_def Metadata_platform_def Metadata_parts_def
        splitlines_def is_linebreak_def Platform_def Platform_parts_def split_once_def
        dict_values_def Platform_OS_def Platform_CPU_def)

lemma Platform_linux_amd64: "Platform ''linux/amd64'' = Inr (MkPlatform ''linux/amd64'')"
  by (simp add: Platform_def Platform_parts_def split_once_def dict_values_def
        Platform_OS_def Platform_CPU_def)

lemma host_example: "Platform_host (example_host body) = Inr (MkPlatform ''linux/amd64'')"
  by (simp add: Platform_host_def dict_getitem_def Platform_OS_def Platform_CPU_def
        example_host_def Platform_linux_amd64)

lemma eq_linux_linux:
  "platform_eq (MkPlatform ''linux/amd64'') (MkPlatform ''linux/amd64'')"
  by (simp add: platform_eq_def)


lemma URI_example:
  "URI (example_host body) ''http://127.0.0.1:5555'' = Inr (MkURI ''http://127.0.0.1:5555'')"
  by (simp add: URI_def example_host_def simple_urlparse_def Let_def)


lemma envdir_example:
  "environment_dir (example_host body) ''/prefix'' ENVIRONMENT_DIR ''default''
     = ''/prefix/download-default''"
  by (simp add: example_host_def ENVIRONMENT_DIR_def)

lemma joinpath_example: "joinpath (example_host body) a b = a @ ''/'' @ b"
  by (simp add: example_host_def)

lemma urlopen_example: "urlopen (example_host body) url = Inr body"
  by (simp add: example_host_def)

lemma hashlib_example: "hashlib_new (example_host body) ''sha256'' = Some sha256_alg"
  by (simp add: example_host_def)

lemma mkdir_empty_world:
  "mkdir ''/prefix/download-default'' empty_world
     = Inr \<lparr>files = Map.empty, dirs = {''/prefix/download-default''}\<rparr>"
  by (simp add: mkdir_def empty_world_def)

lemma filename_linux_entry: "Metadata_filename linux_entry = Inr ''test.bat''"
  by (simp add: Metadata_filename_def parts_linux_entry)

lemma uri_linux_entry:
  "Metadata_uri (example_host body) linux_entry = Inr (MkURI ''http://127.0.0.1:5555'')"
  by (simp add: Metadata_uri_def parts_linux_entry URI_example)

lemma platform_linux_entry: "Metadata_platform linux_entry = Inr (MkPlatform ''linux/amd64'')"
  by (simp add: Metadata_platform_def parts_linux_entry Platform_linux_amd64)

lemma sri_linux_entry:
  "Metadata_sri (example_host body) linux_entry =
     Inr \<lparr>sri_value = ''sha256-'' @ shell_checksum, sri_algorithm = ''sha256'',
          sri_checksum = shell_checksum\<rparr>"
  unfolding Metadata_sri_def parts_linux_entry
  by (simp only: sum.case prod.case
        SRI_example[OF b64decode_shell b64encode_shell length_shell_digest])

lemma outcome_shell_ok:
  "final_outcome \<lparr>sri_value = v, sri_algorithm = a, sri_checksum = shell_checksum\<rparr>
     \<lparr>hasher_alg = sha256_alg, hasher_fed = shellscript\<rparr> = None"
proof -
  have "digest_fn sha256_alg shellscript = Some shell_digest"
    by (simp add: sha256_alg_def sha256_shellscript)
  from final_outcome_digest[OF this] show ?thesis by (simp add: b64encode_shell)
qed

subsection \<open>Permissions\<close>

text \<open>
  \<^bold>\<open>C8\<close>. When \<^verbatim>\<open>download\<close> returns, that is when the whole body has been written
  and its digest has matched, the file holds the body and its permission bits are
  \<^verbatim>\<open>S_IRUSR | S_IXUSR\<close>, set by the \<^verbatim>\<open>chmod\<close> that follows the write. After an
  install that returns, the file of the installed entry has these bits. They are
  \<^verbatim>\<open>0o500\<close>: no write bit, and nothing for the group or for others.
\<close>

theorem download_sets_permissions:
  "(download rt u self fn w = (Inr (), w1) \<longrightarrow>
      (\<exists>body. urlopen rt (uri_value u) = Inr body
         \<and> files w1 fn = Some \<lparr>file_content = body, file_mode = S_IRUSR OR S_IXUSR\<rparr>))
   \<and> (install_environment rt prefix version deps w = (Inr (), w') \<longrightarrow>
      (\<exists>dep fname f. dep \<in> set deps \<and> Metadata_filename dep = Inr fname
         \<and> files w' (joinpath rt (environment_dir rt prefix ENVIRONMENT_DIR version) fname)
             = Some f
         \<and> file_mode f = S_IRUSR OR S_IXUSR))
   \<and> (S_IRUSR OR S_IXUSR) = (0x140 :: mode)
   \<and> (S_IRUSR OR S_IXUSR) AND (S_IWUSR OR S_IRWXG OR S_IRWXO) = (0 :: mode)"
proof -
  let ?E = "environment_dir rt prefix ENVIRONMENT_DIR version"
  let ?sc = "joinpath rt ?E ''health.srisum''"
  have 1: "download rt u self fn w = (Inr (), w1) \<longrightarrow>
      (\<exists>body. urlopen rt (uri_value u) = Inr body
         \<and> files w1 fn = Some \<lparr>file_content = body, file_mode = S_IRUSR OR S_IXUSR\<rparr>)"
  proof
    assume "download rt u self fn w = (Inr (), w1)"
    from download_ok[OF this] obtain body where "urlopen rt (uri_value u) = Inr body"
      and "w1 = w\<lparr>files := (files w)(fn \<mapsto>
                     \<lparr>file_content = body, file_mode = S_IRUSR OR S_IXUSR\<rparr>)\<rparr>"
      by blast
    then show "\<exists>body. urlopen rt (uri_value u) = Inr body
         \<and> files w1 fn = Some \<lparr>file_content = body, file_mode = S_IRUSR OR S_IXUSR\<rparr>"
      by simp
  qed
  have 2: "install_environment rt prefix version deps w = (Inr (), w') \<longrightarrow>
      (\<exists>dep fname f. dep \<in> set deps \<and> Metadata_filename dep = Inr fname
         \<and> files w' (joinpath rt ?E fname) = Some f
         \<and> file_mode f = S_IRUSR OR S_IXUSR)"
  proof
    assume "install_environment rt prefix version deps w = (Inr (), w')"
    from install_environment_inv[OF this] obtain dep where dep: "dep \<in> set deps"
      and ie: "install_entry rt prefix version dep w = (Inr (), w')"
      by auto
    from install_entry_ok[OF ie] obtain w1 fname u s w2 w3 where
      fname: "Metadata_filename dep = Inr fname"
      and dl: "download rt u s (joinpath rt ?E fname) w1 = (Inr (), w2)"
      and ow: "open_write rt ?sc w2 = Inr w3"
      and w': "w' = fp_write ?sc
                 (text_encode rt (sri_value s @ ''  '' @ path_str rt fname @ ''\<newline>'')) w3"
      by blast
    from download_ok[OF dl] obtain body where
      w2: "w2 = w1\<lparr>files := (files w1)(joinpath rt ?E fname \<mapsto>
                     \<lparr>file_content = body, file_mode = S_IRUSR OR S_IXUSR\<rparr>)\<rparr>"
      by blast
    from ow have w3: "w3 = w2\<lparr>files := (files w2)(?sc \<mapsto>
                  \<lparr>file_content = [], file_mode = opened_mode rt w2 ?sc\<rparr>)\<rparr>"
      by (auto simp: open_write_def split: if_splits)
    have "\<exists>f. files w' (joinpath rt ?E fname) = Some f \<and> file_mode f = S_IRUSR OR S_IXUSR"
      unfolding w' w3 w2
      by (simp add: files_fp_write opened_mode_def)
    with dep fname show "\<exists>dep fname f. dep \<in> set deps \<and> Metadata_filename dep = Inr fname
         \<and> files w' (joinpath rt ?E fname) = Some f
         \<and> file_mode f = S_IRUSR OR S_IXUSR"
      by blast
  qed
  show ?thesis
    by (rule conjI[OF 1 conjI[OF 2 mode_0o500]])
qed

text \<open>
  The healthy manifest of the tests on the example host: the script is installed with
  mode \<^verbatim>\<open>0o500\<close>.
\<close>

theorem download_sets_permissions_witness:
  "download (example_host shellscript) (MkURI ''http://127.0.0.1:5555'')
      \<lparr>sri_value = ''sha256-'' @ shell_checksum, sri_algorithm = ''sha256'',
       sri_checksum = shell_checksum\<rparr>
      ''/prefix/download-default/test.bat'' empty_world
    = (Inr (), empty_world\<lparr>files := (files empty_world)
         (''/prefix/download-default/test.bat'' \<mapsto>
            \<lparr>file_content = shellscript, file_mode = S_IRUSR OR S_IXUSR\<rparr>)\<rparr>)
   \<and> files (empty_world\<lparr>files := (files empty_world)
         (''/prefix/download-default/test.bat'' \<mapsto>
            \<lparr>file_content = shellscript, file_mode = S_IRUSR OR S_IXUSR\<rparr>)\<rparr>)
        ''/prefix/download-default/test.bat''
      = Some \<lparr>file_content = shellscript, file_mode = 0x140\<rparr>
   \<and> fst (install_environment (example_host shellscript) ''/prefix'' ''default''
              healthy_dependencies empty_world) = Inr ()
   \<and> files (snd (install_environment (example_host shellscript) ''/prefix'' ''default''
                    healthy_dependencies empty_world))
        ''/prefix/download-default/test.bat''
      = Some \<lparr>file_content = shellscript, file_mode = 0x140\<rparr>"
proof -
  let ?rt = "example_host shellscript"
  let ?S = "\<lparr>sri_value = ''sha256-'' @ shell_checksum, sri_algorithm = ''sha256'',
             sri_checksum = shell_checksum\<rparr>"
  let ?u = "MkURI ''http://127.0.0.1:5555''"
  let ?dest = "''/prefix/download-default/test.bat''"
  let ?W1 = "empty_world\<lparr>files := (files empty_world)
         (?dest \<mapsto> \<lparr>file_content = shellscript, file_mode = S_IRUSR OR S_IXUSR\<rparr>)\<rparr>"
  have nd: "?dest \<notin> dirs empty_world" by (simp add: empty_world_def)
  have hn: "hashlib_new ?rt (sri_algorithm ?S) = Some sha256_alg"
    by (simp add: hashlib_example)
  have uo: "urlopen ?rt (uri_value ?u) = Inr shellscript" by (rule urlopen_example)
  have d: "download ?rt ?u ?S ?dest empty_world = (Inr (), ?W1)"
    using download_eq[OF uo nd hn] by (simp add: outcome_shell_ok)
  note T = download_sets_permissions[of ?rt ?u ?S ?dest empty_world ?W1
             "''/prefix''" "''default''" healthy_dependencies
             "snd (install_environment ?rt ''/prefix'' ''default''
                     healthy_dependencies empty_world)"]
  have m: "(S_IRUSR OR S_IXUSR) = (0x140 :: mode)" by (rule T[THEN conjunct2, THEN conjunct2, THEN conjunct1])
  have f1: "files ?W1 ?dest = Some \<lparr>file_content = shellscript, file_mode = 0x140\<rparr>"
    by (simp add: m)
  have sel: "install_environment ?rt ''/prefix'' ''default'' healthy_dependencies empty_world
             = install_entry ?rt ''/prefix'' ''default'' linux_entry empty_world"
    unfolding healthy_dependencies_def
    using install_environment_select[of ?rt "MkPlatform ''linux/amd64''" "[]" linux_entry
            "MkPlatform ''linux/amd64''" "''/prefix''" "''default''" "[windows_entry]"
            empty_world]
    by (simp add: host_example platform_linux_entry eq_linux_linux)
  let ?w1 = "\<lparr>files = Map.empty, dirs = {''/prefix/download-default''}\<rparr>"
  have ie: "install_entry ?rt ''/prefix'' ''default'' linux_entry empty_world =
     (Inr (), ?w1\<lparr>files := (files ?w1)
        (?dest \<mapsto> \<lparr>file_content = shellscript, file_mode = S_IRUSR OR S_IXUSR\<rparr>,
         ''/prefix/download-default/health.srisum'' \<mapsto>
           \<lparr>file_content =
              text_encode ?rt (sri_value ?S @ ''  '' @ path_str ?rt ''test.bat'' @ ''\<newline>''),
            file_mode = opened_mode ?rt empty_world
              ''/prefix/download-default/health.srisum''\<rparr>)\<rparr>)"
    using install_entry_ok_eq[of ?rt "''/prefix''" "''default''" empty_world ?w1 linux_entry
            "''test.bat''" ?u ?S shellscript sha256_alg]
    by (simp add: envdir_example joinpath_example mkdir_empty_world filename_linux_entry
          uri_linux_entry sri_linux_entry urlopen_example hashlib_example outcome_shell_ok)
  have r1: "fst (install_environment ?rt ''/prefix'' ''default'' healthy_dependencies
                  empty_world) = Inr ()"
    by (simp add: sel ie)
  have r2: "files (snd (install_environment ?rt ''/prefix'' ''default'' healthy_dependencies
                  empty_world)) ?dest
            = Some \<lparr>file_content = shellscript, file_mode = 0x140\<rparr>"
    by (simp add: sel ie m)
  show ?thesis
    by (rule conjI[OF d conjI[OF f1 conjI[OF r1 r2]]])
qed

subsection \<open>A failed install\<close>


















subsection \<open>The choice of the entry\<close>




lemma repr_windows_entry:
  "repr_list [windows_entry] =
     ''['' @ [CHR 0x27] @ ''windows/amd64'' @ [CHR 0x5C] @ ''nsha256-''
     @ ''L63Nefq+fKVIm24IKqlcqbJmc1rrJD3dKhIvutFK+IA='' @ [CHR 0x5C] @ ''nhttp://127.0.0.1:5555''
     @ [CHR 0x5C] @ ''ntest.bat'' @ [CHR 0x27] @ '']''"
  by (simp add: repr_list_def repr_str_def repr_char_def windows_entry_def Let_def)






end
